theory Spec2Isabelle
  imports Main
begin

section \<open>The compiler back-end driver \<^verbatim>\<open>artiq/compiler/targets.py\<close>\<close>

text \<open>
  The development embeds \<^verbatim>\<open>RunTool\<close>, \<^verbatim>\<open>_dump\<close> and the methods
  \<^verbatim>\<open>optimize\<close>, \<^verbatim>\<open>compile\<close>, \<^verbatim>\<open>assemble\<close>, \<^verbatim>\<open>link\<close>, \<^verbatim>\<open>symbolize\<close> and
  \<^verbatim>\<open>demangle\<close> of class \<^verbatim>\<open>Target\<close>. Everything the Python code does to its
  environment is explicit: the file system, the diagnostic stream and the list of external
  processes started are fields of a record \<open>world\<close> that every operation takes and returns;
  every exception is a value of the type \<open>error\<close>, returned as \<open>Inl\<close>.

  Representation of Python values:
  \<^item> \<^verbatim>\<open>bytes\<close> is a list of 8-bit characters;
  \<^item> \<^verbatim>\<open>str\<close> is represented by its UTF-8 encoding, again a list of 8-bit characters.
    \<^verbatim>\<open>b.decode('utf-8')\<close> therefore checks that \<open>b\<close> is well-formed UTF-8 and
    returns it unchanged, and \<^verbatim>\<open>bytes(s, 'utf-8')\<close> is the identity. The string operations
    the source uses (\<^verbatim>\<open>split\<close> and \<^verbatim>\<open>rsplit\<close> at an ASCII separator, comparison
    with ASCII literals, slicing off an ASCII prefix, \<^verbatim>\<open>rstrip\<close>) act on the encoding
    the way they act on the code points, because an ASCII byte never occurs inside the
    encoding of another character;
  \<^item> Python's unbounded \<^verbatim>\<open>int\<close> is \<open>int\<close>;
  \<^item> a \<^verbatim>\<open>dict\<close> with string keys is a map; \<^verbatim>\<open>**tempdata\<close>, whose order of
    iteration decides the order in which temporary files are made, is an association list.
\<close>

type_synonym bytes = string
type_synonym str = string
type_synonym path = string

datatype error =
    Exception str
  | RuntimeError str
  | OSError str
  | KeyError str
  | ValueError
  | IndexError
  | StopIteration
  | AttributeError
  | UnicodeDecodeError

subsection \<open>Built-in string operations of Python\<close>

text \<open>
  Well-formed UTF-8 (the table of the Unicode standard, which is what CPython's strict
  decoder accepts: no overlong forms, no surrogates, nothing above U+10FFFF).
\<close>

definition cont :: "nat \<Rightarrow> bool" where
  "cont b = (0x80 \<le> b \<and> b \<le> 0xBF)"

fun utf8_valid :: "nat list \<Rightarrow> bool" where
  "utf8_valid [] = True"
| "utf8_valid (b # bs) =
     (if b < 0x80 then utf8_valid bs
      else if 0xC2 \<le> b \<and> b \<le> 0xDF then
        (case bs of c1 # r \<Rightarrow> cont c1 \<and> utf8_valid r | _ \<Rightarrow> False)
      else if 0xE0 \<le> b \<and> b \<le> 0xEF then
        (case bs of
           c1 # c2 # r \<Rightarrow>
             (if b = 0xE0 then 0xA0 \<le> c1 \<and> c1 \<le> 0xBF
              else if b = 0xED then 0x80 \<le> c1 \<and> c1 \<le> 0x9F
              else cont c1) \<and> cont c2 \<and> utf8_valid r
         | _ \<Rightarrow> False)
      else if 0xF0 \<le> b \<and> b \<le> 0xF4 then
        (case bs of
           c1 # c2 # c3 # r \<Rightarrow>
             (if b = 0xF0 then 0x90 \<le> c1 \<and> c1 \<le> 0xBF
              else if b = 0xF4 then 0x80 \<le> c1 \<and> c1 \<le> 0x8F
              else cont c1) \<and> cont c2 \<and> cont c3 \<and> utf8_valid r
         | _ \<Rightarrow> False)
      else False)"

text \<open>\<^verbatim>\<open>b.decode('utf-8')\<close>, with the default strict error handling.\<close>

definition decode_utf8 :: "bytes \<Rightarrow> error + str" where
  "decode_utf8 b = (if utf8_valid (map of_char b) then Inr b else Inl UnicodeDecodeError)"

text \<open>
  The characters for which \<^verbatim>\<open>str.isspace\<close> holds, each in its UTF-8 encoding and
  reversed (last byte first): U+0009..U+000D, U+001C..U+0020, U+0085, U+00A0, U+1680,
  U+2000..U+200A, U+2028, U+2029, U+202F, U+205F, U+3000. \<open>space_len_rev ascii_fs r\<close> is
  the number of bytes of the white-space character that ends the string whose reversal is
  \<open>r\<close>, or 0 when it ends with none. The flag says whether U+001C..U+001F count:
  they do for \<^verbatim>\<open>str.rstrip\<close> and do not for \<^verbatim>\<open>int\<close>.
\<close>

definition space_len_rev :: "bool \<Rightarrow> nat list \<Rightarrow> nat" where
  "space_len_rev ascii_fs r =
     (case r of
        [] \<Rightarrow> 0
      | b0 # r1 \<Rightarrow>
          if (0x09 \<le> b0 \<and> b0 \<le> 0x0D) \<or> b0 = 0x20 then 1
          else if ascii_fs \<and> 0x1C \<le> b0 \<and> b0 \<le> 0x1F then 1
          else (case r1 of
                  [] \<Rightarrow> 0
                | b1 # r2 \<Rightarrow>
                    if b1 = 0xC2 \<and> (b0 = 0x85 \<or> b0 = 0xA0) then 2
                    else (case r2 of
                            [] \<Rightarrow> 0
                          | b2 # _ \<Rightarrow>
                              if b2 = 0xE1 \<and> b1 = 0x9A \<and> b0 = 0x80 then 3
                              else if b2 = 0xE2 \<and> b1 = 0x80 \<and>
                                      ((0x80 \<le> b0 \<and> b0 \<le> 0x8A) \<or> b0 = 0xA8 \<or>
                                       b0 = 0xA9 \<or> b0 = 0xAF) then 3
                              else if b2 = 0xE2 \<and> b1 = 0x81 \<and> b0 = 0x9F then 3
                              else if b2 = 0xE3 \<and> b1 = 0x80 \<and> b0 = 0x80 then 3
                              else 0)))"

text \<open>The same for a white-space character at the start of a string (first byte first).\<close>

definition space_len :: "bool \<Rightarrow> nat list \<Rightarrow> nat" where
  "space_len ascii_fs s =
     (if space_len_rev ascii_fs (rev (take 1 s)) = 1 then 1
      else if space_len_rev ascii_fs (rev (take 2 s)) = 2 then 2
      else if space_len_rev ascii_fs (rev (take 3 s)) = 3 then 3
      else 0)"

lemma space_len_rev_le: "space_len_rev fs r \<le> length r"
  by (auto simp: space_len_rev_def split: list.splits)

lemma space_len_le: "space_len fs s \<le> length s"
proof -
  have "space_len_rev fs (rev (take k s)) \<le> length s" for k
    using space_len_rev_le [of fs "rev (take k s)"] by simp
  then have "space_len_rev fs (rev (take k s)) = k \<Longrightarrow> k \<le> length s" for k
    by metis
  from this [of 1] this [of 2] this [of 3] show ?thesis
    by (simp add: space_len_def)
qed

function strip_left :: "bool \<Rightarrow> string \<Rightarrow> string" where
  "strip_left fs s =
     (let n = space_len fs (map of_char s)
      in if n = 0 then s else strip_left fs (drop n s))"
  by pat_completeness auto
termination
proof (relation "measure (\<lambda>(fs, s). length s)")
  show "wf (measure (\<lambda>(fs, s). length s))" by simp
next
  fix fs :: bool and s :: string and n
  assume n: "n = space_len fs (map of_char s)" and nz: "n \<noteq> 0"
  have "n \<le> length s"
    using space_len_le [of fs "map of_char s"] n by simp
  with nz show "((fs, drop n s), (fs, s)) \<in> measure (\<lambda>(fs, s). length s)"
    by simp
qed

function strip_right_rev :: "bool \<Rightarrow> string \<Rightarrow> string" where
  "strip_right_rev fs r =
     (let n = space_len_rev fs (map of_char r)
      in if n = 0 then r else strip_right_rev fs (drop n r))"
  by pat_completeness auto
termination
proof (relation "measure (\<lambda>(fs, r). length r)")
  show "wf (measure (\<lambda>(fs, r). length r))" by simp
next
  fix fs :: bool and r :: string and n
  assume n: "n = space_len_rev fs (map of_char r)" and nz: "n \<noteq> 0"
  have "n \<le> length r"
    using space_len_rev_le [of fs "map of_char r"] n by simp
  with nz show "((fs, drop n r), (fs, r)) \<in> measure (\<lambda>(fs, r). length r)"
    by simp
qed

declare strip_left.simps [simp del] strip_right_rev.simps [simp del]

text \<open>\<^verbatim>\<open>s.rstrip()\<close>: remove every white-space character at the end.\<close>

definition rstrip :: "str \<Rightarrow> str" where
  "rstrip s = rev (strip_right_rev True (rev s))"

text \<open>\<^verbatim>\<open>s.split(sep)\<close> for a one-character separator: never an empty list.\<close>

fun split :: "char \<Rightarrow> str \<Rightarrow> str list" where
  "split sep [] = [[]]"
| "split sep (c # cs) =
     (if c = sep then [] # split sep cs
      else (case split sep cs of
              [] \<Rightarrow> [[c]]
            | x # xs \<Rightarrow> (c # x) # xs))"

text \<open>
  \<^verbatim>\<open>s.rsplit(sep, 1)\<close> for a one-character separator: the string itself when the
  separator does not occur, else what is before and what is after its last occurrence.
\<close>

definition rsplit1 :: "char \<Rightarrow> str \<Rightarrow> str list" where
  "rsplit1 sep s =
     (if sep \<in> set s
      then [rev (tl (dropWhile (\<lambda>c. c \<noteq> sep) (rev s))),
            rev (takeWhile (\<lambda>c. c \<noteq> sep) (rev s))]
      else [s])"


text \<open>
  \<^verbatim>\<open>int(s, base)\<close> on a \<^verbatim>\<open>str\<close>, as CPython 3.6 and later read it: white space
  around the literal is skipped (U+001C..U+001F do not count here), then come an optional
  sign, for base 16 an optional prefix \<^verbatim>\<open>0x\<close> or \<^verbatim>\<open>0X\<close>, and digits that single
  underscores may separate (one underscore may follow the prefix). Anything else raises
  \<^verbatim>\<open>ValueError\<close>. Two things are not modelled: decimal digits outside ASCII, which
  CPython also accepts (the model reports \<^verbatim>\<open>ValueError\<close> on them), and the limit that
  recent versions put on the number of digits of a decimal literal.
\<close>

definition digit_val :: "char \<Rightarrow> nat option" where
  "digit_val c =
     (let n = (of_char c :: nat)
      in if 48 \<le> n \<and> n \<le> 57 then Some (n - 48)
         else if 97 \<le> n \<and> n \<le> 122 then Some (n - 87)
         else if 65 \<le> n \<and> n \<le> 90 then Some (n - 55)
         else None)"

fun digits_value :: "nat \<Rightarrow> nat \<Rightarrow> string \<Rightarrow> nat option" where
  "digits_value base acc [] = Some acc"
| "digits_value base acc (c # cs) =
     (case digit_val c of
        None \<Rightarrow> None
      | Some d \<Rightarrow> if d < base then digits_value base (acc * base + d) cs else None)"

fun double_underscore :: "string \<Rightarrow> bool" where
  "double_underscore (a # b # r) =
     ((a = CHR ''_'' \<and> b = CHR ''_'') \<or> double_underscore (b # r))"
| "double_underscore _ = False"

definition digit_group :: "string \<Rightarrow> string option" where
  "digit_group s =
     (if s = [] \<or> hd s = CHR ''_'' \<or> last s = CHR ''_'' \<or> double_underscore s then None
      else Some (filter (\<lambda>c. c \<noteq> CHR ''_'') s))"

definition int_str :: "str \<Rightarrow> nat \<Rightarrow> error + int" where
  "int_str s base =
     (let t = rev (strip_right_rev False (rev (strip_left False s)));
          neg = (take 1 t = ''-'');
          u = (if take 1 t = ''-'' \<or> take 1 t = ''+'' then drop 1 t else t);
          v = (if base = 16 \<and> (take 2 u = ''0x'' \<or> take 2 u = ''0X'')
               then (if take 1 (drop 2 u) = ''_'' then drop 3 u else drop 2 u)
               else u)
      in case digit_group v of
           None \<Rightarrow> Inl ValueError
         | Some ds \<Rightarrow>
             (case digits_value base 0 ds of
                None \<Rightarrow> Inl ValueError
              | Some n \<Rightarrow> Inr (if neg then - int n else int n)))"

text \<open>\<^verbatim>\<open>hex(n)\<close>: lower-case digits, no padding, the sign before the prefix.\<close>

fun hex_digits :: "nat \<Rightarrow> string" where
  "hex_digits n =
     (if n < 16 then [''0123456789abcdef'' ! n]
      else hex_digits (n div 16) @ [''0123456789abcdef'' ! (n mod 16)])"

declare hex_digits.simps [simp del]

definition hex :: "int \<Rightarrow> str" where
  "hex n = (if n < 0 then ''-0x'' @ hex_digits (nat (- n)) else ''0x'' @ hex_digits (nat n))"

text \<open>\<^verbatim>\<open>str(n)\<close> for a number \<open>n \<ge> 0\<close>, as \<^verbatim>\<open>"obj{}".format(index)\<close> inserts it.\<close>

fun dec_digits :: "nat \<Rightarrow> string" where
  "dec_digits n =
     (if n < 10 then [''0123456789'' ! n]
      else dec_digits (n div 10) @ [''0123456789'' ! (n mod 10)])"

declare dec_digits.simps [simp del]

text \<open>
  \<^verbatim>\<open>argument.format(**names)\<close>. The format string is read from left to right:
  \<^verbatim>\<open>{{\<close> and \<^verbatim>\<open>}}\<close> stand for one brace, \<^verbatim>\<open>{field}\<close> is replaced by the value of
  the keyword argument \<open>field\<close> (\<^verbatim>\<open>KeyError\<close> when there is none;
  \<^verbatim>\<open>IndexError\<close> when the field is empty or a number, since there are no positional
  arguments), a single \<^verbatim>\<open>}\<close>, an unclosed \<^verbatim>\<open>{\<close> and a \<^verbatim>\<open>{\<close> inside a field
  raise \<^verbatim>\<open>ValueError\<close>. The second argument of \<open>format_from\<close> is the text of the
  field being read, if any. Conversions, format specifications, attribute and index
  access (\<^verbatim>\<open>!\<close>, \<^verbatim>\<open>:\<close>, \<^verbatim>\<open>.\<close>, \<^verbatim>\<open>[\<close> inside a field) are not modelled; no pattern
  written in \<^verbatim>\<open>targets.py\<close> uses them.
\<close>

definition lookup_field :: "(str \<rightharpoonup> str) \<Rightarrow> str \<Rightarrow> error + str" where
  "lookup_field names f =
     (if list_all (\<lambda>c. c \<in> set ''0123456789'') f then Inl IndexError
      else (case names f of None \<Rightarrow> Inl (KeyError f) | Some v \<Rightarrow> Inr v))"

fun format_from :: "(str \<rightharpoonup> str) \<Rightarrow> str option \<Rightarrow> str \<Rightarrow> error + str" where
  "format_from names None [] = Inr []"
| "format_from names None [c] =
     (if c = CHR ''{'' \<or> c = CHR ''}'' then Inl ValueError else Inr [c])"
| "format_from names None (c # d # cs) =
     (if (c = CHR ''{'' \<or> c = CHR ''}'') \<and> d = c then
        (case format_from names None cs of Inl e \<Rightarrow> Inl e | Inr r \<Rightarrow> Inr (c # r))
      else if c = CHR ''{'' then format_from names (Some []) (d # cs)
      else if c = CHR ''}'' then Inl ValueError
      else (case format_from names None (d # cs) of Inl e \<Rightarrow> Inl e | Inr r \<Rightarrow> Inr (c # r)))"
| "format_from names (Some f) [] = Inl ValueError"
| "format_from names (Some f) (c # cs) =
     (if c = CHR ''}'' then
        (case lookup_field names f of
           Inl e \<Rightarrow> Inl e
         | Inr v \<Rightarrow> (case format_from names None cs of Inl e \<Rightarrow> Inl e | Inr r \<Rightarrow> Inr (v @ r)))
      else if c = CHR ''{'' then Inl ValueError
      else format_from names (Some (f @ [c])) cs)"

definition format :: "str \<Rightarrow> (str \<rightharpoonup> str) \<Rightarrow> error + str" where
  "format argument names = format_from names None argument"

text \<open>\<^verbatim>\<open>s.upper()\<close> on the ASCII letters (the only ones in the strings it is applied to).\<close>

definition upper :: "str \<Rightarrow> str" where
  "upper s = map (\<lambda>c. if 97 \<le> (of_char c :: nat) \<and> (of_char c :: nat) \<le> 122
                        then char_of ((of_char c :: nat) - 32) else c) s"


text \<open>\<^verbatim>\<open>sep.join(xs)\<close>.\<close>

fun join :: "str \<Rightarrow> str list \<Rightarrow> str" where
  "join sep [] = []"
| "join sep [x] = x"
| "join sep (x # y # xs) = x @ sep @ join sep (y # xs)"

definition nl :: char where
  "nl = CHR 0x0A"

text \<open>A \<^verbatim>\<open>dict\<close> in insertion order: \<^verbatim>\<open>d[k] = v\<close> and \<^verbatim>\<open>d[k]\<close>.\<close>

fun setitem :: "(str \<times> 'v) list \<Rightarrow> str \<Rightarrow> 'v \<Rightarrow> (str \<times> 'v) list" where
  "setitem [] k v = [(k, v)]"
| "setitem ((k', v') # d) k v = (if k' = k then (k, v) # d else (k', v') # setitem d k v)"

definition getitem :: "(str \<times> 'v) list \<Rightarrow> str \<Rightarrow> error + 'v" where
  "getitem d k = (case map_of d k of None \<Rightarrow> Inl (KeyError k) | Some v \<Rightarrow> Inr v)"

subsection \<open>The environment\<close>

text \<open>
  \<open>disk\<close> lists the files that exist, with their contents; \<open>diag\<close> is what has been
  printed to \<^verbatim>\<open>sys.stderr\<close>, one entry for each \<^verbatim>\<open>print\<close>; \<open>started\<close> lists the
  command lines of the external processes that were started. File operations themselves
  never fail in this model (no permissions, no full disk).
\<close>

record world =
  disk :: "(path \<times> bytes) list"
  diag :: "str list"
  started :: "str list list"

text \<open>
  What \<^verbatim>\<open>process.communicate()\<close> yields once the child has exited, and what the child
  did to the file system: \<open>written\<close> lists the files that it wrote, each with its new
  content, in the order of the writes (a tool creates or replaces files; in this model it
  removes none). An external tool is a function of its command line and of the files it can
  read; \<open>Inl\<close> says that the program could not be started at all (\<^verbatim>\<open>Popen\<close> raises).
\<close>

record completed =
  returncode :: int
  stdout :: bytes
  stderr :: bytes
  written :: "(path \<times> bytes) list"

type_synonym tool = "str list \<Rightarrow> (path \<times> bytes) list \<Rightarrow> error + completed"

definition print_stderr :: "str \<Rightarrow> world \<Rightarrow> world" where
  "print_stderr s w = w\<lparr>diag := diag w @ [s]\<rparr>"

text \<open>
  \<^verbatim>\<open>tempfile\<close> picks a random name that no existing file has. The model picks the name
  deterministically: it is longer than every name in use, hence different from each.
\<close>

definition fresh_temp_name :: "str \<Rightarrow> path list \<Rightarrow> path" where
  "fresh_temp_name suffix used =
     ''/tmp/tmp'' @ replicate (Suc (fold max (map length used) 0)) CHR ''_'' @ suffix"

text \<open>\<^verbatim>\<open>tempfile.NamedTemporaryFile(suffix=suffix)\<close>: a new, empty file. A file object is
  represented by its name.\<close>

definition NamedTemporaryFile :: "str \<Rightarrow> world \<Rightarrow> path \<times> world" where
  "NamedTemporaryFile suffix w =
     (let f = fresh_temp_name suffix (map fst (disk w))
      in (f, w\<lparr>disk := (f, []) # disk w\<rparr>))"

text \<open>\<^verbatim>\<open>open(p, "wb")\<close>: the file is created, or emptied when it exists.\<close>

definition open_wb :: "path \<Rightarrow> world \<Rightarrow> path \<times> world" where
  "open_wb p w = (p, w\<lparr>disk := (p, []) # filter (\<lambda>(q, c). q \<noteq> p) (disk w)\<rparr>)"

text \<open>\<^verbatim>\<open>f.write(data)\<close> followed by \<^verbatim>\<open>f.flush()\<close> or \<^verbatim>\<open>f.close()\<close>.\<close>

definition write_file :: "path \<Rightarrow> bytes \<Rightarrow> world \<Rightarrow> world" where
  "write_file f data w = w\<lparr>disk := map (\<lambda>(q, c). if q = f then (q, c @ data) else (q, c)) (disk w)\<rparr>"

text \<open>\<^verbatim>\<open>f.close()\<close> on a \<^verbatim>\<open>NamedTemporaryFile\<close> made with \<^verbatim>\<open>delete=True\<close> (the
  default): the file is removed.\<close>

definition close :: "path \<Rightarrow> world \<Rightarrow> world" where
  "close f w = w\<lparr>disk := filter (\<lambda>(q, c). q \<noteq> f) (disk w)\<rparr>"

text \<open>
  \<^verbatim>\<open>f.read()\<close> on the file object of a temporary file through which nothing but the
  empty byte string has been written, so that its position is 0: the whole content of the
  file, as it is now.
\<close>

definition read_file :: "path \<Rightarrow> world \<Rightarrow> bytes" where
  "read_file f w = (case map_of (disk w) f of None \<Rightarrow> [] | Some c \<Rightarrow> c)"

text \<open>
  A file written by an external process: created, or replaced when a file of that name
  exists. A file is identified with its name, so that a file object opened before sees what
  the process wrote under its name.
\<close>

definition write_out :: "path \<times> bytes \<Rightarrow> (path \<times> bytes) list \<Rightarrow> (path \<times> bytes) list" where
  "write_out pc d = pc # filter (\<lambda>(q, c). q \<noteq> fst pc) d"

subsection \<open>\<^verbatim>\<open>RunTool\<close>\<close>

record RunTool =
  files :: "path list"
  pattern :: "str list"
  tempdata :: "(str \<times> bytes) list"

text \<open>An entry of the dictionary that \<^verbatim>\<open>__enter__\<close> returns: a file object or a string.\<close>

datatype rvalue = File path | Str str

definition RunTool_init :: "str list \<Rightarrow> (str \<times> bytes) list \<Rightarrow> RunTool" where
  "RunTool_init pattern' tempdata' = \<lparr>files = [], pattern = pattern', tempdata = tempdata'\<rparr>"

definition maketemp :: "bytes \<Rightarrow> RunTool \<Rightarrow> world \<Rightarrow> path \<times> RunTool \<times> world" where
  "maketemp data self w =
     (let (f, w1) = NamedTemporaryFile [] w;
          w2 = write_file f data w1
      in (f, self\<lparr>files := files self @ [f]\<rparr>, w2))"

text \<open>The loop \<^verbatim>\<open>for key in self.tempdata\<close> of \<^verbatim>\<open>__enter__\<close>.\<close>

fun make_tempfiles ::
  "(str \<times> bytes) list \<Rightarrow> (str \<times> rvalue) list \<Rightarrow> (str \<times> str) list \<Rightarrow> RunTool \<Rightarrow> world \<Rightarrow>
   (str \<times> rvalue) list \<times> (str \<times> str) list \<times> RunTool \<times> world" where
  "make_tempfiles [] tempfiles tempnames self w = (tempfiles, tempnames, self, w)"
| "make_tempfiles ((key, data) # rest) tempfiles tempnames self w =
     (let (f, self1, w1) = maketemp data self w
      in make_tempfiles rest (setitem tempfiles key (File f)) (setitem tempnames key f) self1 w1)"

text \<open>The loop \<^verbatim>\<open>for argument in self.pattern\<close>.\<close>

fun format_all :: "str list \<Rightarrow> (str \<rightharpoonup> str) \<Rightarrow> error + str list" where
  "format_all [] names = Inr []"
| "format_all (argument # rest) names =
     (case format argument names of
        Inl e \<Rightarrow> Inl e
      | Inr a \<Rightarrow> (case format_all rest names of Inl e \<Rightarrow> Inl e | Inr as \<Rightarrow> Inr (a # as)))"

text \<open>
  \<^verbatim>\<open>subprocess.Popen(cmdline, ...)\<close> and \<^verbatim>\<open>process.communicate()\<close>. \<^verbatim>\<open>Popen\<close> reads
  \<^verbatim>\<open>cmdline[0]\<close>, so an empty command line raises \<^verbatim>\<open>IndexError\<close>. When the child
  has exited, the files that it wrote are on disk.
\<close>

definition Popen :: "tool \<Rightarrow> str list \<Rightarrow> world \<Rightarrow> (error + completed) \<times> world" where
  "Popen run cmdline w =
     (if cmdline = [] then (Inl IndexError, w)
      else (case run cmdline (disk w) of
              Inl e \<Rightarrow> (Inl e, w)
            | Inr process \<Rightarrow>
                (Inr process,
                 w\<lparr>disk := fold write_out (written process) (disk w),
                    started := started w @ [cmdline]\<rparr>)))"

definition RunTool_enter ::
  "tool \<Rightarrow> RunTool \<Rightarrow> world \<Rightarrow> (error + (str \<times> rvalue) list) \<times> RunTool \<times> world" where
  "RunTool_enter run self w =
     (let (tempfiles, tempnames, self1, w1) = make_tempfiles (tempdata self) [] [] self w
      in case format_all (pattern self1) (map_of tempnames) of
           Inl e \<Rightarrow> (Inl e, self1, w1)
         | Inr cmdline \<Rightarrow>
             (case Popen run cmdline w1 of
                (Inl e, w2) \<Rightarrow> (Inl e, self1, w2)
              | (Inr process, w2) \<Rightarrow>
                  if returncode process \<noteq> 0 then
                    (case decode_utf8 (stderr process) of
                       Inl e \<Rightarrow> (Inl e, self1, w2)
                     | Inr err \<Rightarrow>
                         (Inl (Exception (hd cmdline @ '' invocation failed: '' @ err)),
                          self1, w2))
                  else
                    (case decode_utf8 (stdout process) of
                       Inl e \<Rightarrow> (Inl e, self1, w2)
                     | Inr out \<Rightarrow> (Inr (setitem tempfiles ''__stdout__'' (Str out)), self1, w2))))"

definition RunTool_exit :: "RunTool \<Rightarrow> world \<Rightarrow> world" where
  "RunTool_exit self w = fold close (files self) w"

text \<open>
  The statement \<^verbatim>\<open>with RunTool(...) as results: body\<close>. Python calls \<^verbatim>\<open>__enter__\<close>
  first; when that raises, the exception propagates and \<^verbatim>\<open>__exit__\<close> is not called.
  Otherwise the body runs and \<^verbatim>\<open>__exit__\<close> is called whether the body returned or
  raised; \<^verbatim>\<open>__exit__\<close> returns \<^verbatim>\<open>None\<close>, so an exception of the body propagates.
\<close>

definition with_RunTool ::
  "tool \<Rightarrow> RunTool \<Rightarrow> ((str \<times> rvalue) list \<Rightarrow> world \<Rightarrow> (error + 'a) \<times> world) \<Rightarrow>
   world \<Rightarrow> (error + 'a) \<times> world" where
  "with_RunTool run self body w =
     (case RunTool_enter run self w of
        (Inl e, self1, w1) \<Rightarrow> (Inl e, w1)
      | (Inr results, self1, w1) \<Rightarrow>
          (let (r, w2) = body results w1 in (r, RunTool_exit self1 w2)))"


subsection \<open>\<^verbatim>\<open>_dump\<close>\<close>

text \<open>
  The value of \<^verbatim>\<open>content()\<close> is a \<^verbatim>\<open>str\<close> or \<^verbatim>\<open>bytes\<close>. The producer
  \<^verbatim>\<open>content\<close> is a computation on the environment that may raise, so that calling
  it and not calling it can be told apart.
\<close>

datatype content = Text str | Data bytes

type_synonym producer = "world \<Rightarrow> (error + content) \<times> world"

definition dump :: "str option \<Rightarrow> str \<Rightarrow> str \<Rightarrow> producer \<Rightarrow> world \<Rightarrow> (error + unit) \<times> world" where
  "dump target kind suffix content w =
     (case target of
        None \<Rightarrow> (Inr (), w)
      | Some t \<Rightarrow>
          (let w1 = print_stderr (''====== '' @ upper kind @ '' DUMP ======'') w
           in case content w1 of
                (Inl e, w2) \<Rightarrow> (Inl e, w2)
              | (Inr content_value, w2) \<Rightarrow>
                  (let data = (case content_value of Text s \<Rightarrow> s | Data b \<Rightarrow> b);
                       (file, w3) = (if t = [] then NamedTemporaryFile suffix w2
                                     else open_wb (t @ suffix) w2);
                       w4 = write_file file data w3
                   in (Inr (), print_stderr (kind @ '' dumped as '' @ file) w4))))"

text \<open>A producer without effect, such as \<^verbatim>\<open>lambda: str(llmod)\<close>.\<close>

definition pure :: "content \<Rightarrow> producer" where
  "pure v = (\<lambda>w. (Inr v, w))"

subsection \<open>\<^verbatim>\<open>Target\<close>\<close>

record Target =
  triple :: str
  data_layout :: str
  features :: "str list"
  print_function :: str

definition Target_default :: Target where
  "Target_default =
     \<lparr>triple = ''unknown'', data_layout = [], features = [], print_function = ''printf''\<rparr>"

definition OR1KTarget :: Target where
  "OR1KTarget =
     \<lparr>triple = ''or1k-linux'',
      data_layout = ''E-m:e-p:32:32-i8:8:8-i16:16:16-i64:32:32-'' @
                    ''f64:32:32-v64:32:32-v128:32:32-a0:0:32-n32'',
      features = [''mul'', ''div'', ''ffl1'', ''cmov'', ''addc''],
      print_function = ''core_log''\<rparr>"

text \<open>
  The binding to LLVM (\<^verbatim>\<open>llvmlite_artiq\<close>) is not part of the repository: its
  operations are parameters. \<open>'m\<close> is the type of parsed LLVM modules, \<open>'tm\<close> that of
  target machines. \<^verbatim>\<open>parse_assembly\<close>, \<^verbatim>\<open>verify\<close> and the construction of a target
  machine may raise.
\<close>

datatype 'tm llpass =
    TargetData 'tm
  | AnalysisPasses 'tm
  | BasicAliasAnalysis
  | TypeBasedAliasAnalysis
  | ConstantMerge
  | CFGSimplification
  | InstructionCombining
  | SROA
  | DeadCodeElimination
  | FunctionAttrs
  | GlobalOptimizer
  | FunctionInlining nat
  | IPSCCP
  | GVN
  | LICM
  | DeadArgElimination
  | GlobalDCE

record ('m, 'tm) llvm =
  create_target_machine :: "str \<Rightarrow> str \<Rightarrow> str \<Rightarrow> str \<Rightarrow> error + 'tm"
  parse_assembly :: "str \<Rightarrow> error + 'm"
  verify :: "'m \<Rightarrow> error + unit"
  run_passes :: "'tm llpass list \<Rightarrow> 'm \<Rightarrow> 'm"
  module_str :: "'m \<Rightarrow> str"
  emit_assembly :: "'tm \<Rightarrow> 'm \<Rightarrow> str"
  emit_object :: "'tm \<Rightarrow> 'm \<Rightarrow> bytes"

text \<open>
  A module as the front end hands it over: \<open>signature\<close> is \<^verbatim>\<open>str(module)\<close>,
  \<open>artiq_ir\<close> lists \<^verbatim>\<open>fn.as_entity(type_printer)\<close> for the functions of
  \<^verbatim>\<open>module.artiq_ir\<close>, and \<open>build_llvm_ir\<close> yields \<^verbatim>\<open>str(llmod)\<close> for the LLVM
  module that \<^verbatim>\<open>module.build_llvm_ir(target)\<close> builds.
\<close>

record Module =
  signature :: str
  artiq_ir :: "str list"
  build_llvm_ir :: "Target \<Rightarrow> error + str"

definition target_machine :: "('m, 'tm) llvm \<Rightarrow> Target \<Rightarrow> error + 'tm" where
  "target_machine ll self =
     create_target_machine ll (triple self)
       (join '','' (map (\<lambda>f. ''+'' @ f) (features self))) ''pic'' ''default''"

definition optimize :: "('m, 'tm) llvm \<Rightarrow> Target \<Rightarrow> 'm \<Rightarrow> error + 'm" where
  "optimize ll self llmodule =
     (case target_machine ll self of
        Inl e \<Rightarrow> Inl e
      | Inr llmachine \<Rightarrow>
          Inr (run_passes ll
                 [TargetData llmachine, AnalysisPasses llmachine,
                  BasicAliasAnalysis, TypeBasedAliasAnalysis,
                  ConstantMerge, CFGSimplification, InstructionCombining, SROA,
                  DeadCodeElimination, FunctionAttrs, GlobalOptimizer,
                  FunctionInlining 275, IPSCCP, InstructionCombining, GVN,
                  CFGSimplification, LICM,
                  DeadArgElimination, GlobalDCE]
                 llmodule))"

text \<open>
  Lines 129 to 131 of \<^verbatim>\<open>compile\<close>: the module signature is printed when the value of
  \<^verbatim>\<open>ARTIQ_DUMP_SIG\<close> is true for Python, that is, present and not empty.
\<close>

definition dump_sig :: "str option \<Rightarrow> Module \<Rightarrow> world \<Rightarrow> world" where
  "dump_sig v module w =
     (case v of
        None \<Rightarrow> w
      | Some t \<Rightarrow>
          if t = [] then w
          else print_stderr (signature module)
                 (print_stderr ''====== MODULE_SIGNATURE DUMP ======'' w))"

text \<open>
  Lines 139 to 144: parse and verify; on \<^verbatim>\<open>RuntimeError\<close> the text is dumped with the
  target \<^verbatim>\<open>""\<close> and the exception raised again. Any other exception propagates.
\<close>

definition parse_and_verify :: "('m, 'tm) llvm \<Rightarrow> str \<Rightarrow> world \<Rightarrow> (error + 'm) \<times> world" where
  "parse_and_verify ll llmod w =
     (let r = (case parse_assembly ll llmod of
                 Inl e \<Rightarrow> Inl e
               | Inr llparsedmod \<Rightarrow>
                   (case verify ll llparsedmod of Inl e \<Rightarrow> Inl e | Inr u \<Rightarrow> Inr llparsedmod))
      in case r of
           Inl (RuntimeError msg) \<Rightarrow>
             (case dump (Some []) ''LLVM IR (broken)'' ''.ll'' (pure (Text llmod)) w of
                (Inl e, w1) \<Rightarrow> (Inl e, w1)
              | (Inr u, w1) \<Rightarrow> (Inl (RuntimeError msg), w1))
         | _ \<Rightarrow> (r, w))"

definition compile ::
  "('m, 'tm) llvm \<Rightarrow> (str \<rightharpoonup> str) \<Rightarrow> Target \<Rightarrow> Module \<Rightarrow> world \<Rightarrow> (error + 'm) \<times> world" where
  "compile ll getenv self module w =
     (let w0 = dump_sig (getenv ''ARTIQ_DUMP_SIG'') module w
      in case dump (getenv ''ARTIQ_DUMP_IR'') ''ARTIQ IR'' ''.txt''
                (pure (Text (join [nl] (artiq_ir module)))) w0 of
           (Inl e, w1) \<Rightarrow> (Inl e, w1)
         | (Inr u, w1) \<Rightarrow>
             (case build_llvm_ir module self of
                Inl e \<Rightarrow> (Inl e, w1)
              | Inr llmod \<Rightarrow>
                  (case parse_and_verify ll llmod w1 of
                     (Inl e, w2) \<Rightarrow> (Inl e, w2)
                   | (Inr llparsedmod, w2) \<Rightarrow>
                       (case dump (getenv ''ARTIQ_DUMP_UNOPT_LLVM'') ''LLVM IR (generated)''
                              ''_unopt.ll'' (pure (Text (module_str ll llparsedmod))) w2 of
                          (Inl e, w3) \<Rightarrow> (Inl e, w3)
                        | (Inr u, w3) \<Rightarrow>
                            (case optimize ll self llparsedmod of
                               Inl e \<Rightarrow> (Inl e, w3)
                             | Inr llopt \<Rightarrow>
                                 (case dump (getenv ''ARTIQ_DUMP_LLVM'') ''LLVM IR (optimized)''
                                        ''.ll'' (pure (Text (module_str ll llopt))) w3 of
                                    (Inl e, w4) \<Rightarrow> (Inl e, w4)
                                  | (Inr u, w4) \<Rightarrow> (Inr llopt, w4)))))))"

definition assemble ::
  "('m, 'tm) llvm \<Rightarrow> (str \<rightharpoonup> str) \<Rightarrow> Target \<Rightarrow> 'm \<Rightarrow> world \<Rightarrow> (error + bytes) \<times> world" where
  "assemble ll getenv self llmodule w =
     (case target_machine ll self of
        Inl e \<Rightarrow> (Inl e, w)
      | Inr llmachine \<Rightarrow>
          (case dump (getenv ''ARTIQ_DUMP_ASM'') ''Assembly'' ''.s''
                 (pure (Text (emit_assembly ll llmachine llmodule))) w of
             (Inl e, w1) \<Rightarrow> (Inl e, w1)
           | (Inr u, w1) \<Rightarrow> (Inr (emit_object ll llmachine llmodule), w1)))"

text \<open>
  \<^verbatim>\<open>link\<close>. The keyword arguments of \<^verbatim>\<open>RunTool\<close> are \<^verbatim>\<open>output\<close> and then
  \<^verbatim>\<open>obj0\<close>, \<^verbatim>\<open>obj1\<close>, ... in the order of the objects;
  \<^verbatim>\<open>"{{obj{}}}".format(index)\<close> is the text \<^verbatim>\<open>{obj\<close>, the index and \<^verbatim>\<open>}\<close>.
  \<^verbatim>\<open>results["output"]\<close> is the file object of the output file, and the value of the
  producer \<^verbatim>\<open>lambda: library\<close> is of type \<^verbatim>\<open>bytes\<close>.
\<close>

definition link ::
  "tool \<Rightarrow> (str \<rightharpoonup> str) \<Rightarrow> Target \<Rightarrow> bytes list \<Rightarrow> world \<Rightarrow> (error + bytes) \<times> world" where
  "link run getenv self objects w =
     with_RunTool run
       (RunTool_init
          ([triple self @ ''-ld'', ''-shared'', ''--eh-frame-hdr''] @
           map (\<lambda>index. ''{obj'' @ dec_digits index @ ''}'') [0..<length objects] @
           [''-o'', ''{output}''])
          ((''output'', []) #
           map (\<lambda>(index, obj). (''obj'' @ dec_digits index, obj)) (enumerate 0 objects)))
       (\<lambda>results w1.
          (case getitem results ''output'' of
             Inl e \<Rightarrow> (Inl e, w1)
           | Inr (Str s) \<Rightarrow> (Inl AttributeError, w1)
           | Inr (File f) \<Rightarrow>
               (let library = read_file f w1
                in case dump (getenv ''ARTIQ_DUMP_ELF'') ''Shared library'' ''.elf''
                          (pure (Data library)) w1 of
                     (Inl e, w2) \<Rightarrow> (Inl e, w2)
                   | (Inr u, w2) \<Rightarrow> (Inr library, w2))))
       w"

subsection \<open>\<^verbatim>\<open>symbolize\<close> and \<^verbatim>\<open>demangle\<close>\<close>

text \<open>A backtrace entry is the tuple \<^verbatim>\<open>(filename, line, column, function, address)\<close>.\<close>

type_synonym entry = "str \<times> int \<times> int \<times> str \<times> int"

definition entry_filename :: "entry \<Rightarrow> str" where
  "entry_filename e = fst e"

definition entry_column :: "entry \<Rightarrow> int" where
  "entry_column e = fst (snd (snd e))"

definition entry_address :: "entry \<Rightarrow> int" where
  "entry_address e = snd (snd (snd (snd e)))"

text \<open>
  Lines 214 to 220, from the location line on: split it at the last colon (unpacking
  into two names raises \<^verbatim>\<open>ValueError\<close> when there is no colon), skip the frame when the
  file name is a sentinel, else convert the line number and append the entry.
\<close>

definition add_frame :: "int \<Rightarrow> str \<Rightarrow> str \<Rightarrow> entry list \<Rightarrow> error + entry list" where
  "add_frame address function' location backtrace =
     (case rsplit1 CHR '':'' location of
        [filename, line] \<Rightarrow>
          if filename = ''??'' \<or> filename = ''<synthesized>'' then Inr backtrace
          else (case int_str line 10 of
                  Inl e \<Rightarrow> Inl e
                | Inr n \<Rightarrow> Inr (backtrace @ [(filename, n, - 1, function', address)]))
      | _ \<Rightarrow> Inl ValueError)"

text \<open>
  The loop \<^verbatim>\<open>while True\<close> of \<^verbatim>\<open>symbolize\<close> over the iterator \<^verbatim>\<open>lines\<close>. Only the
  first \<^verbatim>\<open>next(lines)\<close> is guarded: the others raise \<^verbatim>\<open>StopIteration\<close> when the lines
  are used up. \<^verbatim>\<open>backtrace[-1]\<close> raises \<^verbatim>\<open>IndexError\<close> on the empty list.
\<close>

fun symbolize_loop :: "str list \<Rightarrow> entry list \<Rightarrow> error + entry list" where
  "symbolize_loop [] backtrace = Inr backtrace"
| "symbolize_loop (address_or_function # lines) backtrace =
     (if take 2 address_or_function = ''0x'' then
        (case int_str (drop 2 address_or_function) 16 of
           Inl e \<Rightarrow> Inl e
         | Inr a \<Rightarrow>
             (case lines of
                [] \<Rightarrow> Inl StopIteration
              | function' # lines1 \<Rightarrow>
                  (case lines1 of
                     [] \<Rightarrow> Inl StopIteration
                   | location # lines2 \<Rightarrow>
                       (case add_frame (a + 1) function' location backtrace of
                          Inl e \<Rightarrow> Inl e
                        | Inr backtrace1 \<Rightarrow> symbolize_loop lines2 backtrace1))))
      else if backtrace = [] then Inl IndexError
      else
        (case lines of
           [] \<Rightarrow> Inl StopIteration
         | location # lines1 \<Rightarrow>
             (case add_frame (entry_address (last backtrace)) address_or_function location
                     backtrace of
                Inl e \<Rightarrow> Inl e
              | Inr backtrace1 \<Rightarrow> symbolize_loop lines1 backtrace1)))"

text \<open>\<^verbatim>\<open>results["__stdout__"].rstrip().split("\n")\<close>.\<close>

definition stdout_lines :: "(str \<times> rvalue) list \<Rightarrow> error + str list" where
  "stdout_lines results =
     (case getitem results ''__stdout__'' of
        Inl e \<Rightarrow> Inl e
      | Inr (File f) \<Rightarrow> Inl AttributeError
      | Inr (Str s) \<Rightarrow> Inr (split nl (rstrip s)))"

definition symbolize ::
  "tool \<Rightarrow> Target \<Rightarrow> bytes \<Rightarrow> int list \<Rightarrow> world \<Rightarrow> (error + entry list) \<times> world" where
  "symbolize run self library addresses w =
     (if addresses = [] then (Inr [], w)
      else
        (let offset_addresses = map (\<lambda>addr. hex (addr - 1)) addresses
         in with_RunTool run
              (RunTool_init
                 ([triple self @ ''-addr2line'', ''--addresses'', ''--functions'', ''--inlines'',
                   ''--demangle'', ''--exe={library}''] @ offset_addresses)
                 [(''library'', library)])
              (\<lambda>results w1.
                 (case stdout_lines results of
                    Inl e \<Rightarrow> Inl e
                  | Inr lines \<Rightarrow> symbolize_loop lines [], w1))
              w))"

definition demangle :: "tool \<Rightarrow> Target \<Rightarrow> str list \<Rightarrow> world \<Rightarrow> (error + str list) \<times> world" where
  "demangle run self names w =
     with_RunTool run
       (RunTool_init ([triple self @ ''-c++filt''] @ names) [])
       (\<lambda>results w1. (stdout_lines results, w1))
       w"


subsection \<open>Names for what \<^verbatim>\<open>symbolize\<close> and \<^verbatim>\<open>demangle\<close> hand to the tool\<close>

text \<open>
  The temporary file that \<^verbatim>\<open>RunTool\<close> makes first when entered in environment \<open>w\<close>,
  and the command line that \<^verbatim>\<open>symbolize\<close> builds from its pattern once the name \<open>f\<close>
  of the library's temporary file is known. That these are what the code computes is
  proved below (\<open>symbolize_run\<close>).
\<close>

definition first_temp :: "world \<Rightarrow> path" where
  "first_temp w = fresh_temp_name [] (map fst (disk w))"

definition addr2line_cmdline :: "Target \<Rightarrow> path \<Rightarrow> int list \<Rightarrow> str list" where
  "addr2line_cmdline self f addresses =
     [triple self @ ''-addr2line'', ''--addresses'', ''--functions'', ''--inlines'',
      ''--demangle'', ''--exe='' @ f] @ map (\<lambda>addr. hex (addr - 1)) addresses"

text \<open>The \<^verbatim>\<open>RunTool\<close> object that \<^verbatim>\<open>link\<close> constructs.\<close>

definition link_invocation :: "Target \<Rightarrow> bytes list \<Rightarrow> RunTool" where
  "link_invocation self objects =
     RunTool_init
       ([triple self @ ''-ld'', ''-shared'', ''--eh-frame-hdr''] @
        map (\<lambda>index. ''{obj'' @ dec_digits index @ ''}'') [0..<length objects] @
        [''-o'', ''{output}''])
       ((''output'', []) #
        map (\<lambda>(index, obj). (''obj'' @ dec_digits index, obj)) (enumerate 0 objects))"

definition no_braces :: "str \<Rightarrow> bool" where
  "no_braces s = (CHR ''{'' \<notin> set s \<and> CHR ''}'' \<notin> set s)"

text \<open>
  \<open>tool_prints run cmdline d lines\<close>: the tool, started with this command line in a file
  system \<open>d\<close>, exits with status 0, and what it wrote to its standard output is
  well-formed UTF-8 that the callers read as \<open>lines\<close> (white space at the end removed,
  then split at the line feeds).
\<close>

definition tool_prints :: "tool \<Rightarrow> str list \<Rightarrow> (path \<times> bytes) list \<Rightarrow> str list \<Rightarrow> bool" where
  "tool_prints run cmdline d lines =
     (case run cmdline d of
        Inl e \<Rightarrow> False
      | Inr process \<Rightarrow>
          returncode process = 0 \<and>
          (case decode_utf8 (stdout process) of
             Inl e \<Rightarrow> False
           | Inr out \<Rightarrow> split nl (rstrip out) = lines))"

text \<open>
  A root record of the resolver's output, given by the text \<open>h\<close> after \<^verbatim>\<open>0x\<close> on its
  address line, the function name, the file name and the text of the line number: its
  three lines. \<open>root_ok A r\<close> says that the record answers the address \<open>A\<close> that
  \<^verbatim>\<open>symbolize\<close> was given: its address reads as \<open>A - 1\<close>, its file name is no sentinel
  and its line number reads as a number. \<open>root_entry A r\<close> is the entry expected for it.
  \<open>root_dropped r\<close> says that the record is well formed and has a sentinel file name.
\<close>

type_synonym root_record = "str \<times> str \<times> str \<times> str"

definition root_lines :: "root_record \<Rightarrow> str list" where
  "root_lines r =
     (case r of (h, function', filename, line) \<Rightarrow>
        [''0x'' @ h, function', filename @ '':'' @ line])"

definition root_ok :: "int \<Rightarrow> root_record \<Rightarrow> bool" where
  "root_ok A r =
     (case r of (h, function', filename, line) \<Rightarrow>
        int_str h 16 = Inr (A - 1) \<and> CHR '':'' \<notin> set line \<and>
        filename \<noteq> ''??'' \<and> filename \<noteq> ''<synthesized>'' \<and>
        (case int_str line 10 of Inl e \<Rightarrow> False | Inr n \<Rightarrow> True))"

definition root_entry :: "int \<Rightarrow> root_record \<Rightarrow> entry" where
  "root_entry A r =
     (case r of (h, function', filename, line) \<Rightarrow>
        (filename, (case int_str line 10 of Inl e \<Rightarrow> 0 | Inr n \<Rightarrow> n), - 1, function', A))"

definition root_dropped :: "root_record \<Rightarrow> bool" where
  "root_dropped r =
     (case r of (h, function', filename, line) \<Rightarrow>
        (case int_str h 16 of Inl e \<Rightarrow> False | Inr a \<Rightarrow> True) \<and> CHR '':'' \<notin> set line \<and>
        (filename = ''??'' \<or> filename = ''<synthesized>''))"

subsection \<open>The dump switches as the specification describes them\<close>

text \<open>
  These two definitions follow the wording of the specification, not the code; they are
  what the code is compared with. \<open>spec_switch v kind suffix data w\<close> is the environment
  that a dump switch with the value \<open>v\<close> (\<open>None\<close> when it is absent) leaves, for a stage
  with this kind, suffix and content: when the value is absent, nothing has happened;
  otherwise the content is in a file, which is a new temporary file whose name ends with the
  suffix when the value is empty, and the file named by the value followed by the suffix
  when it is not, and the diagnostic stream has the heading of the dump and the name of the
  file (the specification asks for the report of the file; the texts of the two lines are
  those that the code prints). \<open>spec_sig_switch\<close> is the module-signature switch as the
  amended claim has it: nothing for an absent or empty value, else the heading and the
  signature on the diagnostic stream.
\<close>

definition spec_switch :: "str option \<Rightarrow> str \<Rightarrow> str \<Rightarrow> bytes \<Rightarrow> world \<Rightarrow> world" where
  "spec_switch v kind suffix data w =
     (case v of
        None \<Rightarrow> w
      | Some t \<Rightarrow>
          (let file = (if t = [] then fresh_temp_name suffix (map fst (disk w)) else t @ suffix)
           in w\<lparr>disk := (file, data) # filter (\<lambda>(q, c). q \<noteq> file) (disk w),
                 diag := diag w @ [''====== '' @ upper kind @ '' DUMP ======'',
                                   kind @ '' dumped as '' @ file]\<rparr>))"

definition spec_sig_switch :: "str option \<Rightarrow> str \<Rightarrow> world \<Rightarrow> world" where
  "spec_sig_switch v sig w =
     (case v of
        None \<Rightarrow> w
      | Some t \<Rightarrow>
          if t = [] then w
          else w\<lparr>diag := diag w @ [''====== MODULE_SIGNATURE DUMP ======'', sig]\<rparr>)"

subsection \<open>Example runs\<close>

text \<open>
  An empty environment, and a stand-in for an external tool: called with the expected
  command line it exits with status 0 and prints \<open>out\<close>; called with any other it fails.
  It writes no file.
\<close>

definition world0 :: world where
  "world0 = \<lparr>disk = [], diag = [], started = []\<rparr>"

definition fake_tool :: "str list \<Rightarrow> bytes \<Rightarrow> tool" where
  "fake_tool expected out cmdline d =
     (if cmdline = expected then Inr \<lparr>returncode = 0, stdout = out, stderr = [], written = []\<rparr>
      else Inr \<lparr>returncode = 1, stdout = [], stderr = ''unexpected arguments'', written = []\<rparr>)"

definition addr2line_args :: "str list" where
  "addr2line_args =
     [''or1k-linux-addr2line'', ''--addresses'', ''--functions'', ''--inlines'', ''--demangle'',
      ''--exe=/tmp/tmp_'']"

definition strip_pattern :: "str list" where
  "strip_pattern = [''or1k-linux-strip'', ''--strip-debug'', ''{library}'', ''-o'', ''{output}'']"

text \<open>
  A stand-in for the LLVM binding: modules are their text; parsing fails on one text and
  verification on another. Two modules of the front end, one whose LLVM IR does not verify,
  and three environments.
\<close>

definition llvm_example :: "(str, unit) llvm" where
  "llvm_example =
     \<lparr>create_target_machine = (\<lambda>triple' features' reloc codemodel. Inr ()),
      parse_assembly = (\<lambda>s. if s = ''garbage'' then Inl (RuntimeError ''parse error'') else Inr s),
      verify = (\<lambda>m. if m = ''define void @f() { }''
                      then Inl (RuntimeError ''verification failed'') else Inr ()),
      run_passes = (\<lambda>passes m. m),
      module_str = (\<lambda>m. m),
      emit_assembly = (\<lambda>llmachine m. m),
      emit_object = (\<lambda>llmachine m. m)\<rparr>"

definition module_broken :: Module where
  "module_broken =
     \<lparr>signature = ''f: () -> None'', artiq_ir = [''f''],
      build_llvm_ir = (\<lambda>target. Inr ''define void @f() { }'')\<rparr>"

definition module_ok :: Module where
  "module_ok =
     \<lparr>signature = ''f: () -> None'', artiq_ir = [''f''],
      build_llvm_ir = (\<lambda>target. Inr ''define void @f() { ret void }'')\<rparr>"

definition env_none :: "str \<rightharpoonup> str" where
  "env_none = Map.empty"

definition env_sig_empty :: "str \<rightharpoonup> str" where
  "env_sig_empty = [''ARTIQ_DUMP_SIG'' \<mapsto> []]"

definition env_sig_path :: "str \<rightharpoonup> str" where
  "env_sig_path = [''ARTIQ_DUMP_SIG'' \<mapsto> ''/tmp/sig'']"

text \<open>
  An environment with four of the other switches set and \<^verbatim>\<open>ARTIQ_DUMP_UNOPT_LLVM\<close>
  absent, and a stand-in for the linker, which exits with status 0 after writing \<open>lib\<close>
  to the file that its last argument names.
\<close>

definition env_dumps :: "str \<rightharpoonup> str" where
  "env_dumps = [''ARTIQ_DUMP_IR'' \<mapsto> [], ''ARTIQ_DUMP_LLVM'' \<mapsto> ''/tmp/x'',
                ''ARTIQ_DUMP_ASM'' \<mapsto> ''/tmp/x'', ''ARTIQ_DUMP_ELF'' \<mapsto> []]"

definition fake_ld :: "bytes \<Rightarrow> tool" where
  "fake_ld lib cmdline d =
     Inr \<lparr>returncode = 0, stdout = [], stderr = [], written = [(last cmdline, lib)]\<rparr>"

section \<open>Properties\<close>

subsection \<open>Auxiliary facts\<close>

lemma split_not_Nil: "split sep s \<noteq> []"
  by (induction s) (auto split: list.splits)

lemma le_fold_max: "(x::nat) \<in> set xs \<or> x \<le> a \<Longrightarrow> x \<le> fold max xs a"
proof (induction xs arbitrary: a)
  case Nil
  then show ?case by simp
next
  case (Cons y ys)
  have "x \<in> set ys \<or> x \<le> max y a"
    using Cons.prems by auto
  then show ?case
    using Cons.IH [of "max y a"] by simp
qed

lemma fresh_temp_name_fresh: "fresh_temp_name suffix used \<notin> set used"
proof
  assume "fresh_temp_name suffix used \<in> set used"
  then have "length (fresh_temp_name suffix used) \<le> fold max (map length used) 0"
    by (intro le_fold_max) simp
  then show False
    by (simp add: fresh_temp_name_def)
qed

lemma filter_absent: "f \<notin> fst ` set d \<Longrightarrow> filter (\<lambda>(q, c). q \<noteq> f) d = d"
  by (induction d) auto

lemma format_from_plain:
  "CHR ''{'' \<notin> set s \<Longrightarrow> CHR ''}'' \<notin> set s \<Longrightarrow> format_from names None s = Inr s"
  by (induction s rule: induct_list012) auto

lemma format_plain: "no_braces s \<Longrightarrow> format s names = Inr s"
  by (simp add: format_def format_from_plain no_braces_def)

lemma format_all_plain: "\<forall>s \<in> set xs. no_braces s \<Longrightarrow> format_all xs names = Inr xs"
  by (induction xs) (auto simp: format_plain)

lemma hex_digits_chars: "set (hex_digits n) \<subseteq> set ''0123456789abcdef''"
proof (induction n rule: hex_digits.induct)
  case (1 n)
  have "m < 16 \<Longrightarrow> ''0123456789abcdef'' ! m \<in> set ''0123456789abcdef''" for m :: nat
    by (rule nth_mem) simp
  then have d: "''0123456789abcdef'' ! (n mod 16) \<in> set ''0123456789abcdef''"
    and e: "n < 16 \<Longrightarrow> ''0123456789abcdef'' ! n \<in> set ''0123456789abcdef''"
    by simp_all
  show ?case
  proof (cases "n < 16")
    case True
    with e show ?thesis by (subst hex_digits.simps) simp
  next
    case False
    with 1 d show ?thesis by (subst hex_digits.simps) simp
  qed
qed

lemma hex_plain: "no_braces (hex n)"
  using hex_digits_chars [of "nat n"] hex_digits_chars [of "nat (- n)"]
  by (auto simp: hex_def no_braces_def)

lemma format_exe: "format ''--exe={library}'' (map_of [(''library'', f)]) = Inr (''--exe='' @ f)"
  by (simp add: format_def lookup_field_def)


lemma addr2line_format:
  assumes "no_braces (triple self)"
  shows "format_all
           ([triple self @ ''-addr2line'', ''--addresses'', ''--functions'', ''--inlines'',
             ''--demangle'', ''--exe={library}''] @ map (\<lambda>addr. hex (addr - 1)) addresses)
           (map_of [(''library'', f)])
         = Inr (addr2line_cmdline self f addresses)"
proof -
  have t: "format (triple self @ ''-addr2line'') (map_of [(''library'', f)])
             = Inr (triple self @ ''-addr2line'')"
    using assms by (intro format_plain) (simp add: no_braces_def)
  have fl: "format s (map_of [(''library'', f)]) = Inr s"
    if "s \<in> {''--addresses'', ''--functions'', ''--inlines'', ''--demangle''}" for s
    using that by (intro format_plain) (auto simp: no_braces_def)
  have h: "format_all (map (\<lambda>addr. hex (addr - 1)) addresses) (map_of [(''library'', f)])
             = Inr (map (\<lambda>addr. hex (addr - 1)) addresses)"
    by (intro format_all_plain) (simp add: hex_plain)
  show ?thesis
    using t fl h format_exe [of f] by (simp add: addr2line_cmdline_def)
qed

lemma map_absent:
  "f \<notin> fst ` set d \<Longrightarrow> map (\<lambda>(q, c). if q = f then (q, c @ data) else (q, c)) d = d"
  by (induction d) auto

lemma first_temp_fresh: "first_temp w \<notin> fst ` set (disk w)"
  using fresh_temp_name_fresh [of "[]" "map fst (disk w)"] by (simp add: first_temp_def)

lemma make_tempfiles_library:
  "make_tempfiles [(''library'', library)] [] [] self w =
     ([(''library'', File (first_temp w))], [(''library'', first_temp w)],
      self\<lparr>files := files self @ [first_temp w]\<rparr>,
      w\<lparr>disk := (first_temp w, library) # disk w\<rparr>)"
  using map_absent [OF first_temp_fresh [of w], of library]
  by (simp add: maketemp_def NamedTemporaryFile_def write_file_def first_temp_def Let_def)

lemma RunTool_enter_ok:
  assumes "make_tempfiles (tempdata self) [] [] self w = (tempfiles, tempnames, self1, w1)"
    and "format_all (pattern self1) (map_of tempnames) = Inr cmdline"
    and "cmdline \<noteq> []"
    and "run cmdline (disk w1) = Inr process"
    and "returncode process = 0"
    and "decode_utf8 (stdout process) = Inr out"
  shows "RunTool_enter run self w =
           (Inr (setitem tempfiles ''__stdout__'' (Str out)), self1,
            w1\<lparr>disk := fold write_out (written process) (disk w1),
                started := started w1 @ [cmdline]\<rparr>)"
  using assms by (simp add: RunTool_enter_def Popen_def)

lemma symbolize_run:
  assumes "no_braces (triple self)" and "addresses \<noteq> []"
    and "run (addr2line_cmdline self (first_temp w) addresses)
             ((first_temp w, library) # disk w) = Inr process"
    and "returncode process = 0"
    and "decode_utf8 (stdout process) = Inr out"
  shows "fst (symbolize run self library addresses w) = symbolize_loop (split nl (rstrip out)) []"
proof -
  define pat where "pat = [triple self @ ''-addr2line'', ''--addresses'', ''--functions'',
    ''--inlines'', ''--demangle'', ''--exe={library}''] @ map (\<lambda>addr. hex (addr - 1)) addresses"
  define self0 where "self0 = RunTool_init pat [(''library'', library)]"
  define f where "f = first_temp w"
  define cmd where "cmd = addr2line_cmdline self f addresses"
  define w1 where "w1 = w\<lparr>disk := (f, library) # disk w\<rparr>"
  have mt: "make_tempfiles (tempdata self0) [] [] self0 w =
              ([(''library'', File f)], [(''library'', f)], self0\<lparr>files := files self0 @ [f]\<rparr>, w1)"
    unfolding f_def w1_def using make_tempfiles_library [of library self0 w]
    by (simp add: self0_def RunTool_init_def del: make_tempfiles.simps)
  have fmt: "format_all (pattern (self0\<lparr>files := files self0 @ [f]\<rparr>)) (map_of [(''library'', f)])
               = Inr cmd"
    unfolding cmd_def using addr2line_format [OF assms(1), of addresses f]
    by (simp add: self0_def RunTool_init_def pat_def del: format_all.simps)
  have ne: "cmd \<noteq> []"
    by (simp add: cmd_def addr2line_cmdline_def)
  have run: "run cmd (disk w1) = Inr process"
    using assms(3) by (simp add: cmd_def w1_def f_def)
  have enter: "RunTool_enter run self0 w =
                 (Inr (setitem [(''library'', File f)] ''__stdout__'' (Str out)),
                  self0\<lparr>files := files self0 @ [f]\<rparr>,
                  w1\<lparr>disk := fold write_out (written process) (disk w1),
                      started := started w1 @ [cmd]\<rparr>)"
    by (rule RunTool_enter_ok) (rule mt fmt ne run assms(4) assms(5))+
  have "symbolize run self library addresses w =
          with_RunTool run self0
            (\<lambda>results w1.
               (case stdout_lines results of
                  Inl e \<Rightarrow> Inl e
                | Inr lines \<Rightarrow> symbolize_loop lines [], w1)) w"
    using assms(2) by (simp add: symbolize_def self0_def pat_def)
  also have "fst \<dots> = symbolize_loop (split nl (rstrip out)) []"
    unfolding with_RunTool_def enter
    by (simp add: stdout_lines_def getitem_def)
  finally show ?thesis .
qed

lemma rsplit1_colon:
  assumes "CHR '':'' \<notin> set line"
  shows "rsplit1 CHR '':'' (filename @ CHR '':'' # line) = [filename, line]"
proof -
  have all: "\<forall>c \<in> set (rev line). c \<noteq> CHR '':''"
    using assms by auto
  have r: "rev (filename @ CHR '':'' # line) = rev line @ CHR '':'' # rev filename"
    by simp
  have t: "takeWhile (\<lambda>c. c \<noteq> CHR '':'') (rev line @ CHR '':'' # rev filename) = rev line"
    using all by (simp add: takeWhile_tail)
  have d: "dropWhile (\<lambda>c. c \<noteq> CHR '':'') (rev line @ CHR '':'' # rev filename)
             = CHR '':'' # rev filename"
    using all by (simp add: dropWhile_append3)
  show ?thesis
    unfolding rsplit1_def r t d by simp
qed

lemma add_frame_kept:
  assumes "CHR '':'' \<notin> set line" "filename \<noteq> ''??''" "filename \<noteq> ''<synthesized>''"
    and "int_str line 10 = Inr n"
  shows "add_frame address function' (filename @ '':'' @ line) backtrace
           = Inr (backtrace @ [(filename, n, - 1, function', address)])"
  using assms by (simp add: add_frame_def rsplit1_colon)

lemma add_frame_dropped:
  assumes "CHR '':'' \<notin> set line" "filename = ''??'' \<or> filename = ''<synthesized>''"
  shows "add_frame address function' (filename @ '':'' @ line) backtrace = Inr backtrace"
  using assms by (auto simp: add_frame_def rsplit1_colon)

lemma symbolize_loop_root_ok:
  assumes "root_ok A r"
  shows "symbolize_loop (root_lines r @ rest) backtrace
           = symbolize_loop rest (backtrace @ [root_entry A r])"
proof -
  obtain h function' filename line where r: "r = (h, function', filename, line)"
    by (cases r) auto
  from assms r obtain n where n: "int_str line 10 = Inr n"
    by (auto simp: root_ok_def split: sum.splits)
  show ?thesis
    using assms n add_frame_kept [of line filename n A function' backtrace]
    by (simp add: r root_ok_def root_lines_def root_entry_def)
qed

lemma symbolize_loop_root_dropped:
  assumes "root_dropped r"
  shows "symbolize_loop (root_lines r @ rest) backtrace = symbolize_loop rest backtrace"
proof -
  obtain h function' filename line where r: "r = (h, function', filename, line)"
    by (cases r) auto
  from assms r obtain a where a: "int_str h 16 = Inr a"
    by (auto simp: root_dropped_def split: sum.splits)
  have "add_frame (a + 1) function' (filename @ '':'' @ line) backtrace = Inr backtrace"
    using assms r by (intro add_frame_dropped) (auto simp: root_dropped_def)
  then show ?thesis
    using a by (simp add: r root_lines_def)
qed

lemma symbolize_loop_roots:
  "list_all2 root_ok addresses recs \<Longrightarrow>
   symbolize_loop (concat (map root_lines recs) @ rest) backtrace
     = symbolize_loop rest (backtrace @ map2 root_entry addresses recs)"
proof (induction addresses recs arbitrary: backtrace rule: list_all2_induct)
  case Nil
  then show ?case by simp
next
  case (Cons A as r rs)
  then show ?case
    by (simp add: symbolize_loop_root_ok)
qed

lemma symbolize_loop_all_dropped:
  "\<forall>r \<in> set recs. root_dropped r \<Longrightarrow>
   symbolize_loop (concat (map root_lines recs) @ rest) backtrace = symbolize_loop rest backtrace"
  by (induction recs) (simp_all add: symbolize_loop_root_dropped)

lemma add_frame_filenames:
  assumes "add_frame address function' location backtrace = Inr backtrace1"
    and "\<forall>e \<in> set backtrace. entry_filename e \<noteq> ''??'' \<and> entry_filename e \<noteq> ''<synthesized>''"
  shows "\<forall>e \<in> set backtrace1. entry_filename e \<noteq> ''??'' \<and> entry_filename e \<noteq> ''<synthesized>''"
  using assms
  by (auto simp: add_frame_def entry_filename_def split: list.splits if_splits sum.splits)

lemma symbolize_loop_filenames:
  "symbolize_loop lines backtrace = Inr result \<Longrightarrow>
   \<forall>e \<in> set backtrace. entry_filename e \<noteq> ''??'' \<and> entry_filename e \<noteq> ''<synthesized>'' \<Longrightarrow>
   \<forall>e \<in> set result. entry_filename e \<noteq> ''??'' \<and> entry_filename e \<noteq> ''<synthesized>''"
proof (induction lines backtrace rule: symbolize_loop.induct)
  case (1 backtrace)
  then show ?case by simp
next
  case (2 l lines backtrace)
  show ?case
  proof (cases "take 2 l = ''0x''")
    case True
    with "2.prems"(1) obtain a function' lines1 location lines2 backtrace1 where
      a: "int_str (drop 2 l) 16 = Inr a" and l: "lines = function' # lines1"
      and l1: "lines1 = location # lines2"
      and af: "add_frame (a + 1) function' location backtrace = Inr backtrace1"
      and res: "symbolize_loop lines2 backtrace1 = Inr result"
      by (auto split: sum.splits list.splits)
    from add_frame_filenames [OF af "2.prems"(2)] "2.IH"(1) [OF True a l l1 af res]
    show ?thesis by blast
  next
    case False
    with "2.prems"(1) obtain location lines1 backtrace1 where
      ne: "backtrace \<noteq> []" and l: "lines = location # lines1"
      and af: "add_frame (entry_address (last backtrace)) l location backtrace = Inr backtrace1"
      and res: "symbolize_loop lines1 backtrace1 = Inr result"
      by (auto split: sum.splits list.splits if_splits)
    from add_frame_filenames [OF af "2.prems"(2)] "2.IH"(2) [OF False ne l af res]
    show ?thesis by blast
  qed
qed

lemma symbolize_prints:
  assumes "no_braces (triple self)" and "addresses \<noteq> []"
    and "tool_prints run (addr2line_cmdline self (first_temp w) addresses)
           ((first_temp w, library) # disk w) lines"
  shows "fst (symbolize run self library addresses w) = symbolize_loop lines []"
proof -
  from assms(3) obtain process out where
    "run (addr2line_cmdline self (first_temp w) addresses) ((first_temp w, library) # disk w)
       = Inr process"
    and "returncode process = 0" and "decode_utf8 (stdout process) = Inr out"
    and "split nl (rstrip out) = lines"
    by (auto simp: tool_prints_def split: sum.splits)
  then show ?thesis
    using symbolize_run [OF assms(1) assms(2)] by simp
qed

lemma map2_root_entry_address:
  "length addresses = length recs \<Longrightarrow> map entry_address (map2 root_entry addresses recs) = addresses"
  by (induction addresses recs rule: list_induct2)
     (auto simp: entry_address_def root_entry_def split: prod.splits)

lemma map2_root_entry_column:
  "e \<in> set (map2 root_entry addresses recs) \<Longrightarrow> entry_column e = - 1"
  by (auto simp: entry_column_def root_entry_def set_zip split: prod.splits)

text \<open>\<^verbatim>\<open>int(hex(n)[2:], 16) == n\<close> for \<open>n \<ge> 0\<close>.\<close>

lemma hex_char_props:
  assumes "c \<in> set ''0123456789abcdef''"
  shows "0x21 \<le> (of_char c :: nat)" "(of_char c :: nat) < 0x80"
    "c \<noteq> CHR ''_''" "c \<noteq> CHR ''x''" "c \<noteq> CHR ''X''" "c \<noteq> CHR ''-''" "c \<noteq> CHR ''+''"
  using assms by auto

lemma space_len_rev_printable:
  "0x21 \<le> b \<Longrightarrow> b < 0x80 \<Longrightarrow> space_len_rev fs (b # r) = 0"
  by (auto simp: space_len_rev_def split: list.splits)

lemma space_len_printable:
  "0x21 \<le> b \<Longrightarrow> b < 0x80 \<Longrightarrow> space_len fs (b # r) = 0"
  by (cases r; cases "tl r")
     (auto simp: space_len_def space_len_rev_def split: list.splits)

lemma strip_left_printable:
  "0x21 \<le> (of_char c :: nat) \<Longrightarrow> (of_char c :: nat) < 0x80 \<Longrightarrow> strip_left fs (c # s) = c # s"
  by (subst strip_left.simps) (simp add: space_len_printable)

lemma strip_right_rev_printable:
  "0x21 \<le> (of_char c :: nat) \<Longrightarrow> (of_char c :: nat) < 0x80 \<Longrightarrow>
   strip_right_rev fs (c # s) = c # s"
  by (subst strip_right_rev.simps) (simp add: space_len_rev_printable)

lemma double_underscore_mem: "double_underscore s \<Longrightarrow> CHR ''_'' \<in> set s"
  by (induction s rule: double_underscore.induct) auto

lemma digit_group_plain:
  assumes "s \<noteq> []" and "CHR ''_'' \<notin> set s"
  shows "digit_group s = Some s"
proof -
  have "hd s \<in> set s" and "last s \<in> set s"
    using assms(1) by simp_all
  with assms(2) have "hd s \<noteq> CHR ''_''" and "last s \<noteq> CHR ''_''"
    by metis+
  moreover have "\<not> double_underscore s"
    using double_underscore_mem assms(2) by blast
  moreover have "filter (\<lambda>c. c \<noteq> CHR ''_'') s = s"
    using assms(2) by (simp add: filter_id_conv) metis
  ultimately show ?thesis
    using assms(1) by (simp add: digit_group_def)
qed

lemma digits_value_append:
  "digits_value base acc (xs @ ys) =
     (case digits_value base acc xs of None \<Rightarrow> None | Some a \<Rightarrow> digits_value base a ys)"
  by (induction xs arbitrary: acc) (auto split: option.splits)

lemma digit_val_hex_all: "\<forall>d \<in> set [0..<16]. digit_val (''0123456789abcdef'' ! d) = Some d"
  by code_simp

lemma digit_val_hex: "d < 16 \<Longrightarrow> digit_val (''0123456789abcdef'' ! d) = Some d"
  using digit_val_hex_all by simp

lemma digits_value_hex_digits: "digits_value 16 0 (hex_digits n) = Some n"
proof (induction n rule: hex_digits.induct)
  case (1 n)
  show ?case
  proof (cases "n < 16")
    case True
    then show ?thesis
      by (subst hex_digits.simps) (simp add: digit_val_hex)
  next
    case False
    have "digits_value 16 0 (hex_digits (n div 16) @ [''0123456789abcdef'' ! (n mod 16)])
            = Some (n div 16 * 16 + n mod 16)"
      using 1 False by (simp add: digits_value_append digit_val_hex)
    with False show ?thesis
      by (subst hex_digits.simps) simp
  qed
qed

lemma hex_digits_not_Nil: "hex_digits n \<noteq> []"
  by (subst hex_digits.simps) simp

lemma int_str_hex_digits: "int_str (hex_digits n) 16 = Inr (int n)"
proof -
  define s where "s = hex_digits n"
  have ne: "s \<noteq> []" and chars: "set s \<subseteq> set ''0123456789abcdef''"
    unfolding s_def by (rule hex_digits_not_Nil, rule hex_digits_chars)
  obtain c r where cr: "s = c # r"
    using ne by (cases s) auto
  obtain c' r' where cr': "rev s = c' # r'"
    using ne by (cases "rev s") auto
  have "c \<in> set s"
    unfolding cr by (rule list.set_intros(1))
  then have c: "c \<in> set ''0123456789abcdef''"
    by (rule subsetD [OF chars])
  have "c' \<in> set (rev s)"
    unfolding cr' by (rule list.set_intros(1))
  then have "c' \<in> set s"
    by (simp only: set_rev)
  then have c': "c' \<in> set ''0123456789abcdef''"
    by (rule subsetD [OF chars])
  have sl: "strip_left False s = s"
    unfolding cr using hex_char_props(1,2) [OF c] by (rule strip_left_printable)
  have sr: "strip_right_rev False (rev s) = rev s"
    unfolding cr' using hex_char_props(1,2) [OF c'] by (rule strip_right_rev_printable)
  have sign: "take 1 s \<noteq> ''-''" "take 1 s \<noteq> ''+''"
    using hex_char_props(6,7) [OF c] by (simp_all add: cr)
  have x: "CHR ''x'' \<notin> set s" "CHR ''X'' \<notin> set s" "CHR ''_'' \<notin> set s"
    using chars hex_char_props(3,4,5) by blast+
  have "take 2 s = ''0x'' \<Longrightarrow> CHR ''x'' \<in> set s"
    by (metis in_set_takeD list.set_intros(1) list.set_intros(2))
  moreover have "take 2 s = ''0X'' \<Longrightarrow> CHR ''X'' \<in> set s"
    by (metis in_set_takeD list.set_intros(1) list.set_intros(2))
  ultimately have prefix: "take 2 s \<noteq> ''0x''" "take 2 s \<noteq> ''0X''"
    using x by blast+
  have dg: "digit_group s = Some s"
    using ne x(3) by (rule digit_group_plain)
  have dv: "digits_value 16 0 s = Some n"
    by (simp add: s_def digits_value_hex_digits)
  show ?thesis
    unfolding s_def [symmetric]
    using sign prefix by (simp add: int_str_def sl sr dg dv del: take_Suc_Cons)
qed

lemma hex_round_trip:
  assumes "1 \<le> A"
  shows "take 2 (hex (A - 1)) = ''0x''" and "int_str (drop 2 (hex (A - 1))) 16 = Inr (A - 1)"
  using assms by (simp_all add: hex_def int_str_hex_digits)

text \<open>Evaluations used by the example runs.\<close>

lemma first_temp_world0: "first_temp world0 = ''/tmp/tmp_''"
  by code_simp

lemma hex_1003: "hex 0x1003 = ''0x1003''"
  by (simp add: hex_def hex_digits.simps)

lemma hex_2003: "hex 0x2003 = ''0x2003''"
  by (simp add: hex_def hex_digits.simps)

lemma cmdline_1004:
  "addr2line_cmdline OR1KTarget (first_temp world0) [0x1004] = addr2line_args @ [''0x1003'']"
  by (simp add: addr2line_cmdline_def addr2line_args_def OR1KTarget_def first_temp_world0
      hex_1003)

lemma cmdline_1004_2004:
  "addr2line_cmdline OR1KTarget (first_temp world0) [0x1004, 0x2004]
     = addr2line_args @ [''0x1003'', ''0x2003'']"
  by (simp add: addr2line_cmdline_def addr2line_args_def OR1KTarget_def first_temp_world0
      hex_1003 hex_2003)

lemma fake_tool_prints:
  "decode_utf8 out = Inr out \<Longrightarrow> split nl (rstrip out) = lines \<Longrightarrow>
   tool_prints (fake_tool expected out) expected d lines"
  by (simp add: tool_prints_def fake_tool_def)

lemma no_braces_OR1K: "no_braces (triple OR1KTarget)"
  by code_simp

subsection \<open>\<^verbatim>\<open>symbolize\<close> on the empty address list\<close>

text \<open>
  Claim C10. For the empty address list \<^verbatim>\<open>symbolize\<close> returns the empty sequence and
  starts no external process: whatever the tool, the library and the environment are, the
  result is \<open>[]\<close> and the environment is the one it was called in, so no process was
  added to \<open>started\<close> and no temporary file was made.
\<close>

theorem symbolize_empty:
  "symbolize run self library [] w = (Inr [], w)"
  by (simp add: symbolize_def)

subsection \<open>\<^verbatim>\<open>symbolize\<close>: one root record for each address\<close>

text \<open>
  Claim C4. Let \<^verbatim>\<open>symbolize\<close> be given \<open>N\<close> addresses, and let the resolver exit with
  status 0 and print one well-formed root record for each address, in order (the record
  for address \<open>A\<close> has an address line that reads as \<open>A - 1\<close>, a file name that is no
  sentinel and a line number that reads as a number), and nothing else: no inlined
  record. Then \<^verbatim>\<open>symbolize\<close> returns exactly \<open>N\<close> entries, in the order of the input,
  each with the address it was given, not the adjusted one, and with column \<open>-1\<close>. For
  \<open>N = 0\<close> the resolver is not run and nothing is assumed about it.
\<close>

theorem symbolize_roots:
  assumes "no_braces (triple self)"
    and "list_all2 root_ok addresses recs"
    and "addresses \<noteq> [] \<Longrightarrow>
         tool_prints run (addr2line_cmdline self (first_temp w) addresses)
           ((first_temp w, library) # disk w) (concat (map root_lines recs))"
  shows "\<exists>backtrace. fst (symbolize run self library addresses w) = Inr backtrace \<and>
           backtrace = map2 root_entry addresses recs \<and>
           length backtrace = length addresses \<and>
           map entry_address backtrace = addresses \<and>
           (\<forall>e \<in> set backtrace. entry_column e = - 1)"
proof -
  have len: "length addresses = length recs"
    using assms(2) by (rule list_all2_lengthD)
  have res: "fst (symbolize run self library addresses w) = Inr (map2 root_entry addresses recs)"
  proof (cases "addresses = []")
    case True
    with len show ?thesis by (simp add: symbolize_def)
  next
    case False
    have "symbolize_loop (concat (map root_lines recs) @ []) []
            = symbolize_loop [] ([] @ map2 root_entry addresses recs)"
      using assms(2) by (rule symbolize_loop_roots)
    then show ?thesis
      using symbolize_prints [OF assms(1) False assms(3) [OF False]] by simp
  qed
  show ?thesis
    using res len map2_root_entry_address [OF len] map2_root_entry_column by auto
qed


text \<open>
  The scenario of the specification: the address \<^verbatim>\<open>0x1004\<close>, a resolver that is called
  with \<^verbatim>\<open>0x1003\<close> and prints \<^verbatim>\<open>0x1003\<close>, \<^verbatim>\<open>foo\<close>, \<^verbatim>\<open>main.c:10\<close>.
\<close>

theorem symbolize_roots_witness:
  "fst (symbolize (fake_tool (addr2line_args @ [''0x1003''])
                     (''0x1003'' @ [nl] @ ''foo'' @ [nl] @ ''main.c:10'' @ [nl]))
          OR1KTarget ''ELF'' [0x1004] world0)
     = Inr [(''main.c'', 10, - 1, ''foo'', 0x1004)]"
proof -
  let ?out = "''0x1003'' @ [nl] @ ''foo'' @ [nl] @ ''main.c:10'' @ [nl]"
  let ?run = "fake_tool (addr2line_args @ [''0x1003'']) ?out"
  have h2: "list_all2 root_ok [0x1004] [(''1003'', ''foo'', ''main.c'', ''10'')]"
    by code_simp
  have d: "decode_utf8 ?out = Inr ?out"
    by code_simp
  have s: "split nl (rstrip ?out) = concat (map root_lines [(''1003'', ''foo'', ''main.c'', ''10'')])"
    by code_simp
  have h3: "tool_prints ?run (addr2line_cmdline OR1KTarget (first_temp world0) [0x1004])
              ((first_temp world0, ''ELF'') # disk world0)
              (concat (map root_lines [(''1003'', ''foo'', ''main.c'', ''10'')]))"
    unfolding cmdline_1004 using d s by (rule fake_tool_prints)
  have e: "map2 root_entry [0x1004] [(''1003'', ''foo'', ''main.c'', ''10'')]
             = [(''main.c'', 10, - 1, ''foo'', 0x1004)]"
    by code_simp
  from symbolize_roots [OF no_braces_OR1K h2 h3] show ?thesis
    unfolding e by blast
qed


subsection \<open>\<^verbatim>\<open>symbolize\<close>: frames with a sentinel file name\<close>

lemma symbolize_result_from_loop:
  assumes "fst (symbolize run self library addresses w) = Inr backtrace"
  shows "backtrace = [] \<or> (\<exists>lines. symbolize_loop lines [] = Inr backtrace)"
proof (cases "addresses = []")
  case True
  with assms show ?thesis by (simp add: symbolize_def)
next
  case False
  with assms show ?thesis
    by (auto simp: symbolize_def with_RunTool_def Let_def
             split: prod.splits sum.splits)
qed

text \<open>
  When the resolver prints nothing but root records with a sentinel file name, the result
  is empty although addresses were given.
\<close>

lemma symbolize_all_dropped:
  assumes "no_braces (triple self)" and "addresses \<noteq> []"
    and "\<forall>r \<in> set recs. root_dropped r"
    and "tool_prints run (addr2line_cmdline self (first_temp w) addresses)
           ((first_temp w, library) # disk w) (concat (map root_lines recs))"
  shows "fst (symbolize run self library addresses w) = Inr []"
  using symbolize_prints [OF assms(1) assms(2) assms(4)]
    symbolize_loop_all_dropped [OF assms(3), of "[]" "[]"]
  by simp

text \<open>
  Claim C6. No entry of a backtrace that \<^verbatim>\<open>symbolize\<close> returns has the file name
  \<^verbatim>\<open>??\<close> or \<^verbatim>\<open><synthesized>\<close>: a frame that the resolver reports with such a file
  name is left out, whatever the tool printed and whatever else is in the result. Nothing
  is put in its place (\<open>symbolize_loop_root_dropped\<close>, \<open>symbolize_all_dropped\<close>), so the
  result can be shorter than the list of addresses.
\<close>

theorem symbolize_omits_sentinels:
  assumes "fst (symbolize run self library addresses w) = Inr backtrace"
    and "e \<in> set backtrace"
  shows "entry_filename e \<noteq> ''??'' \<and> entry_filename e \<noteq> ''<synthesized>''"
proof -
  from symbolize_result_from_loop [OF assms(1)] assms(2)
  obtain lines where "symbolize_loop lines [] = Inr backtrace"
    by auto
  from symbolize_loop_filenames [OF this] assms(2) show ?thesis
    by simp
qed

text \<open>
  Two addresses; the resolver reports the first in file \<^verbatim>\<open>??\<close>. The result has one
  entry, for the second address.
\<close>

theorem symbolize_omits_sentinels_witness:
  "fst (symbolize (fake_tool (addr2line_args @ [''0x1003'', ''0x2003''])
                     (''0x1003'' @ [nl] @ ''foo'' @ [nl] @ ''??:0'' @ [nl] @
                      ''0x2003'' @ [nl] @ ''bar'' @ [nl] @ ''main.c:3'' @ [nl]))
          OR1KTarget ''ELF'' [0x1004, 0x2004] world0)
     = Inr [(''main.c'', 3, - 1, ''bar'', 0x2004)] \<and>
   entry_filename (''main.c'', 3, - 1, ''bar'', 0x2004) \<noteq> ''??'' \<and>
   entry_filename (''main.c'', 3, - 1, ''bar'', 0x2004) \<noteq> ''<synthesized>''"
proof -
  let ?out = "''0x1003'' @ [nl] @ ''foo'' @ [nl] @ ''??:0'' @ [nl] @
              ''0x2003'' @ [nl] @ ''bar'' @ [nl] @ ''main.c:3'' @ [nl]"
  let ?run = "fake_tool (addr2line_args @ [''0x1003'', ''0x2003'']) ?out"
  let ?lines = "[''0x1003'', ''foo'', ''??:0'', ''0x2003'', ''bar'', ''main.c:3'']"
  have d: "decode_utf8 ?out = Inr ?out"
    by code_simp
  have s: "split nl (rstrip ?out) = ?lines"
    by code_simp
  have p: "tool_prints ?run (addr2line_cmdline OR1KTarget (first_temp world0) [0x1004, 0x2004])
             ((first_temp world0, ''ELF'') # disk world0) ?lines"
    unfolding cmdline_1004_2004 using d s by (rule fake_tool_prints)
  have l: "symbolize_loop ?lines [] = Inr [(''main.c'', 3, - 1, ''bar'', 0x2004)]"
    by code_simp
  have r: "fst (symbolize ?run OR1KTarget ''ELF'' [0x1004, 0x2004] world0)
             = Inr [(''main.c'', 3, - 1, ''bar'', 0x2004)]"
    using symbolize_prints [OF no_braces_OR1K _ p] l by simp
  have m: "(''main.c'', 3, - 1, ''bar'', 0x2004) \<in> set [(''main.c'', 3, - 1, ''bar'', 0x2004 :: int)]"
    by simp
  from r symbolize_omits_sentinels [OF r m] show ?thesis
    by simp
qed

subsection \<open>\<^verbatim>\<open>symbolize\<close>: an inlined record before any entry\<close>

text \<open>
  Claim C7. Let the resolver's output start with any number of root records that are all
  dropped for their sentinel file name (none, when the very first record is the inlined
  one), followed by a line that does not start with \<^verbatim>\<open>0x\<close>. When the loop reaches that
  line no entry has been emitted, the branch for inlined frames reads
  \<^verbatim>\<open>backtrace[-1]\<close> of the empty list, and \<^verbatim>\<open>symbolize\<close> ends with \<^verbatim>\<open>IndexError\<close>
  instead of a backtrace, whatever follows in the output.
\<close>

theorem symbolize_inlined_without_entry:
  assumes "no_braces (triple self)" and "addresses \<noteq> []"
    and "\<forall>r \<in> set recs. root_dropped r"
    and "take 2 l \<noteq> ''0x''"
    and "tool_prints run (addr2line_cmdline self (first_temp w) addresses)
           ((first_temp w, library) # disk w) (concat (map root_lines recs) @ l # rest)"
  shows "fst (symbolize run self library addresses w) = Inl IndexError"
proof -
  have "symbolize_loop (concat (map root_lines recs) @ l # rest) [] = symbolize_loop (l # rest) []"
    using assms(3) by (rule symbolize_loop_all_dropped)
  also have "\<dots> = Inl IndexError"
    using assms(4) by simp
  finally show ?thesis
    using symbolize_prints [OF assms(1) assms(2) assms(5)] by simp
qed

text \<open>
  One address: the resolver reports it in file \<^verbatim>\<open>??\<close> and adds an inlined frame
  \<^verbatim>\<open>bar\<close> at \<^verbatim>\<open>main.c:3\<close>.
\<close>

theorem symbolize_inlined_without_entry_witness:
  "fst (symbolize (fake_tool (addr2line_args @ [''0x1003''])
                     (''0x1003'' @ [nl] @ ''foo'' @ [nl] @ ''??:0'' @ [nl] @
                      ''bar'' @ [nl] @ ''main.c:3'' @ [nl]))
          OR1KTarget ''ELF'' [0x1004] world0)
     = Inl IndexError"
proof -
  let ?out = "''0x1003'' @ [nl] @ ''foo'' @ [nl] @ ''??:0'' @ [nl] @
              ''bar'' @ [nl] @ ''main.c:3'' @ [nl]"
  let ?run = "fake_tool (addr2line_args @ [''0x1003'']) ?out"
  have h2: "[0x1004 :: int] \<noteq> []"
    by simp
  have h3: "\<forall>r \<in> set [(''1003'', ''foo'', ''??'', ''0'')]. root_dropped r"
    by code_simp
  have h4: "take 2 ''bar'' \<noteq> ''0x''"
    by simp
  have d: "decode_utf8 ?out = Inr ?out"
    by code_simp
  have s: "split nl (rstrip ?out)
             = concat (map root_lines [(''1003'', ''foo'', ''??'', ''0'')]) @ ''bar'' # [''main.c:3'']"
    by code_simp
  have h5: "tool_prints ?run (addr2line_cmdline OR1KTarget (first_temp world0) [0x1004])
              ((first_temp world0, ''ELF'') # disk world0)
              (concat (map root_lines [(''1003'', ''foo'', ''??'', ''0'')]) @ ''bar'' # [''main.c:3''])"
    unfolding cmdline_1004 using d s by (rule fake_tool_prints)
  show ?thesis
    by (rule symbolize_inlined_without_entry [OF no_braces_OR1K h2 h3 h4 h5])
qed


subsection \<open>\<^verbatim>\<open>symbolize\<close>: the adjustment of return addresses\<close>

lemma close_started: "started (close f w) = started w"
  by (simp add: close_def)

lemma fold_close_started: "started (fold close fs w) = started w"
  by (induction fs arbitrary: w) (simp_all add: close_started)

lemma RunTool_enter_launched:
  assumes "make_tempfiles (tempdata self) [] [] self w = (tempfiles, tempnames, self1, w1)"
    and "format_all (pattern self1) (map_of tempnames) = Inr cmdline"
    and "cmdline \<noteq> []"
    and "run cmdline (disk w1) = Inr process"
  shows "\<exists>r w2. RunTool_enter run self w = (r, self1, w2) \<and>
                started w2 = started w1 @ [cmdline]"
  using assms by (simp add: RunTool_enter_def Popen_def split: sum.splits)

lemma symbolize_started:
  assumes "no_braces (triple self)" and "addresses \<noteq> []"
    and "run (addr2line_cmdline self (first_temp w) addresses)
             ((first_temp w, library) # disk w) = Inr process"
  shows "started (snd (symbolize run self library addresses w))
           = started w @ [addr2line_cmdline self (first_temp w) addresses]"
proof -
  define pat where "pat = [triple self @ ''-addr2line'', ''--addresses'', ''--functions'',
    ''--inlines'', ''--demangle'', ''--exe={library}''] @ map (\<lambda>addr. hex (addr - 1)) addresses"
  define self0 where "self0 = RunTool_init pat [(''library'', library)]"
  define f where "f = first_temp w"
  define cmd where "cmd = addr2line_cmdline self f addresses"
  define w1 where "w1 = w\<lparr>disk := (f, library) # disk w\<rparr>"
  define body :: "(str \<times> rvalue) list \<Rightarrow> world \<Rightarrow> (error + entry list) \<times> world"
    where "body = (\<lambda>results w1.
               (case stdout_lines results of
                  Inl e \<Rightarrow> Inl e
                | Inr lines \<Rightarrow> symbolize_loop lines [], w1))"
  have mt: "make_tempfiles (tempdata self0) [] [] self0 w =
              ([(''library'', File f)], [(''library'', f)], self0\<lparr>files := files self0 @ [f]\<rparr>, w1)"
    unfolding f_def w1_def using make_tempfiles_library [of library self0 w]
    by (simp add: self0_def RunTool_init_def del: make_tempfiles.simps)
  have fmt: "format_all (pattern (self0\<lparr>files := files self0 @ [f]\<rparr>)) (map_of [(''library'', f)])
               = Inr cmd"
    unfolding cmd_def using addr2line_format [OF assms(1), of addresses f]
    by (simp add: self0_def RunTool_init_def pat_def del: format_all.simps)
  have ne: "cmd \<noteq> []"
    by (simp add: cmd_def addr2line_cmdline_def)
  have run: "run cmd (disk w1) = Inr process"
    using assms(3) by (simp add: cmd_def w1_def f_def)
  have "\<exists>r w2. RunTool_enter run self0 w = (r, self0\<lparr>files := files self0 @ [f]\<rparr>, w2) \<and>
                started w2 = started w1 @ [cmd]"
    by (rule RunTool_enter_launched) (rule mt fmt ne run)+
  then obtain r w2 where
    enter: "RunTool_enter run self0 w = (r, self0\<lparr>files := files self0 @ [f]\<rparr>, w2)"
    and w2: "started w2 = started w1 @ [cmd]"
    by blast
  have "started (snd (with_RunTool run self0 body w)) = started w @ [cmd]"
    unfolding with_RunTool_def enter
    by (cases r) (simp_all add: body_def RunTool_exit_def fold_close_started close_started w1_def w2
       split: prod.splits)
  moreover have "symbolize run self library addresses w = with_RunTool run self0 body w"
    using assms(2) by (simp add: symbolize_def self0_def pat_def body_def)
  ultimately show ?thesis
    by (simp add: cmd_def f_def)
qed

text \<open>
  Claim C5. For every address \<open>A\<close> given to \<^verbatim>\<open>symbolize\<close>, the argument handed to the
  resolver is \<^verbatim>\<open>hex(A - 1)\<close>: the command line started is the tool name, the five
  options and these tokens, in the order of the addresses. When the resolver answers each
  address with a root record whose address line reads as \<open>A - 1\<close>, the entry reported
  for it carries \<open>A\<close>: one is added to the address read. The token passed, when the
  resolver prints it back as it is, is such an address line: for \<open>A \<ge> 1\<close> it starts
  with \<^verbatim>\<open>0x\<close> and what follows reads, in base 16, as \<open>A - 1\<close>. The command line is the
  same whatever the resolver answers (\<open>symbolize_started\<close>).
\<close>

theorem symbolize_address_round_trip:
  assumes "no_braces (triple self)" and "addresses \<noteq> []"
    and "list_all2 root_ok addresses recs"
    and "tool_prints run (addr2line_cmdline self (first_temp w) addresses)
           ((first_temp w, library) # disk w) (concat (map root_lines recs))"
  shows "started (snd (symbolize run self library addresses w))
           = started w @
             [[triple self @ ''-addr2line'', ''--addresses'', ''--functions'', ''--inlines'',
               ''--demangle'', ''--exe='' @ first_temp w] @ map (\<lambda>A. hex (A - 1)) addresses] \<and>
         (\<exists>backtrace. fst (symbolize run self library addresses w) = Inr backtrace \<and>
            map entry_address backtrace = addresses) \<and>
         (\<forall>A \<in> set addresses. 1 \<le> A \<longrightarrow>
            take 2 (hex (A - 1)) = ''0x'' \<and> int_str (drop 2 (hex (A - 1))) 16 = Inr (A - 1))"
proof -
  have len: "length addresses = length recs"
    using assms(3) by (rule list_all2_lengthD)
  have loop: "symbolize_loop (concat (map root_lines recs) @ []) []
                = symbolize_loop [] ([] @ map2 root_entry addresses recs)"
    using assms(3) by (rule symbolize_loop_roots)
  have run: "fst (symbolize run self library addresses w) = Inr (map2 root_entry addresses recs)"
    using symbolize_prints [OF assms(1) assms(2) assms(4)] loop by simp
  from assms(4) obtain process where
    "run (addr2line_cmdline self (first_temp w) addresses) ((first_temp w, library) # disk w)
       = Inr process"
    by (auto simp: tool_prints_def split: sum.splits)
  then have "started (snd (symbolize run self library addresses w))
          = started w @ [addr2line_cmdline self (first_temp w) addresses]"
    by (rule symbolize_started [OF assms(1) assms(2)])
  moreover have "map entry_address (map2 root_entry addresses recs) = addresses"
    using len by (rule map2_root_entry_address)
  ultimately show ?thesis
    using run hex_round_trip by (simp add: addr2line_cmdline_def)
qed

text \<open>The scenario of the specification again: \<^verbatim>\<open>0x1004\<close> goes out as \<^verbatim>\<open>0x1003\<close>
  and comes back as \<^verbatim>\<open>0x1004\<close>.\<close>

theorem symbolize_address_round_trip_witness:
  "started (snd (symbolize (fake_tool (addr2line_args @ [''0x1003''])
                             (''0x1003'' @ [nl] @ ''foo'' @ [nl] @ ''main.c:10'' @ [nl]))
                  OR1KTarget ''ELF'' [0x1004] world0))
     = [[''or1k-linux-addr2line'', ''--addresses'', ''--functions'', ''--inlines'', ''--demangle'',
         ''--exe=/tmp/tmp_'', ''0x1003'']] \<and>
   (\<exists>backtrace.
      fst (symbolize (fake_tool (addr2line_args @ [''0x1003''])
                        (''0x1003'' @ [nl] @ ''foo'' @ [nl] @ ''main.c:10'' @ [nl]))
             OR1KTarget ''ELF'' [0x1004] world0) = Inr backtrace \<and>
      map entry_address backtrace = [0x1004]) \<and>
   int_str (drop 2 (hex (0x1004 - 1))) 16 = Inr (0x1004 - 1)"
proof -
  let ?out = "''0x1003'' @ [nl] @ ''foo'' @ [nl] @ ''main.c:10'' @ [nl]"
  let ?run = "fake_tool (addr2line_args @ [''0x1003'']) ?out"
  have h2: "[0x1004 :: int] \<noteq> []"
    by simp
  have h3: "list_all2 root_ok [0x1004] [(''1003'', ''foo'', ''main.c'', ''10'')]"
    by code_simp
  have d: "decode_utf8 ?out = Inr ?out"
    by code_simp
  have s: "split nl (rstrip ?out) = concat (map root_lines [(''1003'', ''foo'', ''main.c'', ''10'')])"
    by code_simp
  have h4: "tool_prints ?run (addr2line_cmdline OR1KTarget (first_temp world0) [0x1004])
              ((first_temp world0, ''ELF'') # disk world0)
              (concat (map root_lines [(''1003'', ''foo'', ''main.c'', ''10'')]))"
    unfolding cmdline_1004 using d s by (rule fake_tool_prints)
  have w: "started world0 = []"
    by (simp add: world0_def)
  from symbolize_address_round_trip [OF no_braces_OR1K h2 h3 h4] show ?thesis
    by (simp add: w first_temp_world0 OR1KTarget_def hex_1003)
qed



subsection \<open>\<^verbatim>\<open>demangle\<close>\<close>

text \<open>
  When the demangler exits with status 0, \<^verbatim>\<open>demangle\<close> returns the lines of its output
  as they are, from one run of the tool with all names on the command line. The result of
  \<^verbatim>\<open>split\<close> is never empty, so \<^verbatim>\<open>demangle\<close> never returns the empty list.
\<close>

lemma stdout_lines_not_Nil: "stdout_lines results \<noteq> Inr []"
  by (auto simp: stdout_lines_def split_not_Nil split: sum.splits rvalue.splits)

lemma demangle_not_Nil: "fst (demangle run self names w) \<noteq> Inr []"
  using stdout_lines_not_Nil
  by (auto simp: demangle_def with_RunTool_def split: prod.splits sum.splits)

lemma demangle_prints:
  assumes "no_braces (triple self)" and "\<forall>n \<in> set names. no_braces n"
    and "tool_prints run ((triple self @ ''-c++filt'') # names) (disk w) lines"
  shows "fst (demangle run self names w) = Inr lines"
    and "started (snd (demangle run self names w))
           = started w @ [(triple self @ ''-c++filt'') # names]"
proof -
  define self0 where "self0 = RunTool_init ([triple self @ ''-c++filt''] @ names) []"
  from assms(3) obtain process out where
    run: "run ((triple self @ ''-c++filt'') # names) (disk w) = Inr process"
    and rc: "returncode process = 0" and dec: "decode_utf8 (stdout process) = Inr out"
    and lines: "split nl (rstrip out) = lines"
    by (auto simp: tool_prints_def split: sum.splits)
  have mt: "make_tempfiles (tempdata self0) [] [] self0 w = ([], [], self0, w)"
    by (simp add: self0_def RunTool_init_def)
  have "\<forall>s \<in> set ((triple self @ ''-c++filt'') # names). no_braces s"
    using assms(1,2) by (auto simp: no_braces_def)
  then have fmt: "format_all (pattern self0) (map_of [])
                    = Inr ((triple self @ ''-c++filt'') # names)"
    unfolding self0_def RunTool_init_def
    using format_all_plain [of "(triple self @ ''-c++filt'') # names" "map_of []"]
    by (simp del: format_all.simps)
  have ne: "(triple self @ ''-c++filt'') # names \<noteq> []"
    by simp
  have enter: "RunTool_enter run self0 w =
                 (Inr (setitem [] ''__stdout__'' (Str out)), self0,
                  w\<lparr>disk := fold write_out (written process) (disk w),
                     started := started w @ [(triple self @ ''-c++filt'') # names]\<rparr>)"
    by (rule RunTool_enter_ok) (rule mt fmt ne run rc dec)+
  have d: "demangle run self names w
             = with_RunTool run self0 (\<lambda>results w1. (stdout_lines results, w1)) w"
    by (simp add: demangle_def self0_def)
  show "fst (demangle run self names w) = Inr lines"
    unfolding d with_RunTool_def enter
    by (simp add: stdout_lines_def getitem_def lines)
  show "started (snd (demangle run self names w))
          = started w @ [(triple self @ ''-c++filt'') # names]"
    unfolding d with_RunTool_def enter
    by (simp add: RunTool_exit_def fold_close_started)
qed

text \<open>
  Claim C8 says that the result has the length of the input, for every list of names. The
  code does not do this for the empty list. \<^verbatim>\<open>symbolize\<close> returns \<^verbatim>\<open>[]\<close> at once
  for the empty list; \<^verbatim>\<open>demangle\<close> has no such test: it runs the demangler without
  arguments, and a demangler that prints nothing yields \<^verbatim>\<open>"".split("\\n")\<close>, the list
  with one empty name.
\<close>

theorem demangle_no_names:
  "demangle (fake_tool [''or1k-linux-c++filt''] []) OR1KTarget [] world0
     = (Inr [[]], world0\<lparr>started := [[''or1k-linux-c++filt'']]\<rparr>)"
  by code_simp



subsection \<open>\<^verbatim>\<open>RunTool\<close>: the temporary files\<close>

text \<open>
  When \<^verbatim>\<open>__enter__\<close> returns, \<^verbatim>\<open>__exit__\<close> is called at the end of the block, whether
  the body returned or raised, and closes every file of \<^verbatim>\<open>self.files\<close>: none of them is
  on disk afterwards (\<open>with_RunTool_releases\<close>). When \<^verbatim>\<open>__enter__\<close> itself raises, which
  it does for a non-zero exit status, the \<^verbatim>\<open>with\<close> statement does not call
  \<^verbatim>\<open>__exit__\<close>: every temporary file made is still on disk when the statement is left
  (\<open>with_RunTool_leak\<close>).
\<close>

lemma names_close: "fst ` set (disk (close f w)) = fst ` set (disk w) - {f}"
  by (auto simp: close_def)

lemma names_fold_close: "fst ` set (disk (fold close fs w)) = fst ` set (disk w) - set fs"
  by (induction fs arbitrary: w) (auto simp: names_close)

lemma RunTool_exit_removes: "f \<in> set (files self) \<Longrightarrow> f \<notin> fst ` set (disk (RunTool_exit self w))"
  by (simp add: RunTool_exit_def names_fold_close)

lemma with_RunTool_releases:
  assumes "RunTool_enter run self w = (Inr results, self1, w1)" and "f \<in> set (files self1)"
  shows "f \<notin> fst ` set (disk (snd (with_RunTool run self body w)))"
  using assms RunTool_exit_removes [OF assms(2)]
  by (simp add: with_RunTool_def split: prod.splits)

lemma with_RunTool_enter_raises:
  assumes "RunTool_enter run self w = (Inl e, self1, w1)"
  shows "with_RunTool run self body w = (Inl e, w1)"
  using assms by (simp add: with_RunTool_def)

lemma maketemp_files:
  assumes "maketemp data self w = (f, self1, w1)"
  shows "files self1 = files self @ [f]" and "f \<notin> fst ` set (disk w)"
    and "fst ` set (disk w1) = insert f (fst ` set (disk w))"
    and "started w1 = started w"
proof -
  have f: "f = fresh_temp_name [] (map fst (disk w))"
    and s: "self1 = self\<lparr>files := files self @ [f]\<rparr>"
    and w: "w1 = write_file f data (w\<lparr>disk := (f, []) # disk w\<rparr>)"
    using assms by (auto simp: maketemp_def NamedTemporaryFile_def Let_def)
  show "files self1 = files self @ [f]"
    by (simp add: s)
  show "f \<notin> fst ` set (disk w)"
    using fresh_temp_name_fresh [of "[]" "map fst (disk w)"] by (simp add: f)
  show "fst ` set (disk w1) = insert f (fst ` set (disk w))"
    unfolding w by (force simp: write_file_def split: if_splits)
  show "started w1 = started w"
    by (simp add: w write_file_def)
qed

lemma make_tempfiles_files:
  assumes "make_tempfiles td tf tn self w = (tf1, tn1, self1, w1)"
  shows "set (files self1) = set (files self) \<union> (fst ` set (disk w1) - fst ` set (disk w)) \<and>
         fst ` set (disk w) \<subseteq> fst ` set (disk w1) \<and> length (files self1) = length (files self) + length td"
  using assms
proof (induction td arbitrary: tf tn self w)
  case Nil
  then show ?case by auto
next
  case (Cons kd td)
  obtain key data where kd: "kd = (key, data)"
    by (cases kd)
  obtain f self' w' where mt: "maketemp data self w = (f, self', w')"
    by (cases "maketemp data self w")
  from Cons.prems have
    rest: "make_tempfiles td (setitem tf key (File f)) (setitem tn key f) self' w' = (tf1, tn1, self1, w1)"
    by (simp add: kd mt)
  note ih = Cons.IH [OF rest]
  note m = maketemp_files [OF mt]
  from ih m show ?case
    by auto
qed

lemma names_write_out: "fst ` set d \<subseteq> fst ` set (fold write_out ws d)"
proof (induction ws arbitrary: d)
  case Nil
  then show ?case by simp
next
  case (Cons pc ws)
  have "fst ` set d \<subseteq> fst ` set (write_out pc d)"
    by (force simp: write_out_def)
  with Cons [of "write_out pc d"] show ?case
    by auto
qed

lemma RunTool_enter_disk:
  assumes "RunTool_enter run self w = (r, self1, w1)"
  shows "\<exists>tf tn w0. make_tempfiles (tempdata self) [] [] self w = (tf, tn, self1, w0) \<and>
           fst ` set (disk w0) \<subseteq> fst ` set (disk w1)"
proof -
  obtain tf tn s0 w0 where mt: "make_tempfiles (tempdata self) [] [] self w = (tf, tn, s0, w0)"
    by (cases "make_tempfiles (tempdata self) [] [] self w")
  have d: "disk w1 = disk w0 \<or> (\<exists>ws. disk w1 = fold write_out ws (disk w0))" and s: "self1 = s0"
    using assms mt
    by (auto simp: RunTool_enter_def Popen_def Let_def split: prod.splits sum.splits if_splits)
  from d consider "disk w1 = disk w0" | ws where "disk w1 = fold write_out ws (disk w0)"
    by blast
  then have "fst ` set (disk w0) \<subseteq> fst ` set (disk w1)"
  proof cases
    case 1
    then show ?thesis by simp
  next
    case 2
    then show ?thesis
      using names_write_out [of "disk w0" ws] by simp
  qed
  with mt s show ?thesis
    by simp
qed

lemma with_RunTool_leak:
  assumes "RunTool_enter run self w = (Inl e, self1, w1)" and "files self = []"
  shows "set (files self1) \<subseteq> fst ` set (disk (snd (with_RunTool run self body w)))"
    and "length (files self1) = length (tempdata self)"
proof -
  from RunTool_enter_disk [OF assms(1)] obtain tf tn w0 where
    mt: "make_tempfiles (tempdata self) [] [] self w = (tf, tn, self1, w0)"
    and d: "fst ` set (disk w0) \<subseteq> fst ` set (disk w1)"
    by blast
  from make_tempfiles_files [OF mt] assms(2) d
  show "set (files self1) \<subseteq> fst ` set (disk (snd (with_RunTool run self body w)))"
    by (auto simp: with_RunTool_enter_raises [OF assms(1)])
  from make_tempfiles_files [OF mt] assms(2)
  show "length (files self1) = length (tempdata self)"
    by simp
qed

text \<open>
  Claim C1 says that no temporary file remains once the scope of an invocation has ended,
  also when the tool exited with a non-zero status. Here is the invocation that
  \<^verbatim>\<open>strip\<close> makes for the triple \<^verbatim>\<open>or1k-linux\<close>, with a tool that exits with status 1:
  the statement ends with the exception, the body is not run, and both temporary files,
  the library and the output, are still on disk. Nothing in \<^verbatim>\<open>RunTool\<close> removes them;
  they go only when the interpreter finalises the file objects.
\<close>

theorem RunTool_failure_keeps_tempfiles:
  "with_RunTool (fake_tool [] []) (RunTool_init strip_pattern [(''library'', ''ELF''), (''output'', [])])
     (body :: (str \<times> rvalue) list \<Rightarrow> world \<Rightarrow> (error + bytes) \<times> world) world0
   = (Inl (Exception ''or1k-linux-strip invocation failed: unexpected arguments''),
      world0\<lparr>disk := [(''/tmp/tmp__________'', []), (''/tmp/tmp_'', ''ELF'')],
             started := [[''or1k-linux-strip'', ''--strip-debug'', ''/tmp/tmp_'', ''-o'',
                          ''/tmp/tmp__________'']]\<rparr>)"
  by code_simp



subsection \<open>\<^verbatim>\<open>RunTool\<close>: the exit status\<close>

lemma maketemp_pattern: "maketemp data self w = (f, self1, w1) \<Longrightarrow> pattern self1 = pattern self"
  by (auto simp: maketemp_def NamedTemporaryFile_def Let_def)

lemma make_tempfiles_pattern:
  "make_tempfiles td tf tn self w = (tf1, tn1, self1, w1) \<Longrightarrow> pattern self1 = pattern self"
proof (induction td arbitrary: tf tn self w)
  case Nil
  then show ?case by simp
next
  case (Cons kd td)
  obtain key data where kd: "kd = (key, data)"
    by (cases kd)
  obtain f self' w' where mt: "maketemp data self w = (f, self', w')"
    by (cases "maketemp data self w")
  from Cons.prems have
    "make_tempfiles td (setitem tf key (File f)) (setitem tn key f) self' w' = (tf1, tn1, self1, w1)"
    by (simp add: kd mt)
  from Cons.IH [OF this] maketemp_pattern [OF mt] show ?case
    by simp
qed

text \<open>
  Claim C2 says that \<^verbatim>\<open>__enter__\<close> raises nothing when the exit status is zero. It
  decodes the captured output with \<^verbatim>\<open>decode('utf-8')\<close>, which is strict: a tool that
  exits with status 0 and writes the byte \<^verbatim>\<open>0xFF\<close> to its standard output makes
  \<^verbatim>\<open>__enter__\<close> raise \<^verbatim>\<open>UnicodeDecodeError\<close>.
\<close>

theorem RunTool_enter_exit_zero_raises:
  "fake_tool [''or1k-linux-c++filt''] [CHR 0xFF] [''or1k-linux-c++filt''] []
     = Inr \<lparr>returncode = 0, stdout = [CHR 0xFF], stderr = [], written = []\<rparr> \<and>
   fst (RunTool_enter (fake_tool [''or1k-linux-c++filt''] [CHR 0xFF])
          (RunTool_init [''or1k-linux-c++filt''] []) world0)
     = Inl UnicodeDecodeError"
  by code_simp

text \<open>
  Claim C2, amended. Let the command line be formatted and the tool started, and let it
  exit. \<^verbatim>\<open>__enter__\<close> raises the exception whose message is the program name
  \<^verbatim>\<open>cmdline[0]\<close>, the text \<^verbatim>\<open>" invocation failed: "\<close> and the tool's standard error
  (this is the only \<^verbatim>\<open>Exception\<close> that it raises itself; the specification calls it
  \<^verbatim>\<open>ToolInvocationError\<close>) if and only if the exit status is not zero and the standard
  error is well-formed UTF-8. It returns the dictionary of the temporary files, with the
  standard output under the key \<^verbatim>\<open>__stdout__\<close>, if and only if the exit status is zero
  and the standard output is well-formed UTF-8. In the two remaining cases, where the
  stream to decode is not well-formed UTF-8, it raises \<^verbatim>\<open>UnicodeDecodeError\<close>.
\<close>

theorem RunTool_enter_outcome:
  assumes "make_tempfiles (tempdata self) [] [] self w = (tempfiles, tempnames, self1, w1)"
    and "format_all (pattern self) (map_of tempnames) = Inr cmdline"
    and "cmdline \<noteq> []"
    and "run cmdline (disk w1) = Inr process"
  shows "(fst (RunTool_enter run self w)
            = Inl (Exception (hd cmdline @ '' invocation failed: '' @ stderr process)) \<longleftrightarrow>
          returncode process \<noteq> 0 \<and> utf8_valid (map of_char (stderr process))) \<and>
         ((\<exists>msg. fst (RunTool_enter run self w) = Inl (Exception msg)) \<longleftrightarrow>
          returncode process \<noteq> 0 \<and> utf8_valid (map of_char (stderr process))) \<and>
         (fst (RunTool_enter run self w)
            = Inr (setitem tempfiles ''__stdout__'' (Str (stdout process))) \<longleftrightarrow>
          returncode process = 0 \<and> utf8_valid (map of_char (stdout process))) \<and>
         (fst (RunTool_enter run self w) = Inl UnicodeDecodeError \<longleftrightarrow>
          (returncode process \<noteq> 0 \<and> \<not> utf8_valid (map of_char (stderr process))) \<or>
          (returncode process = 0 \<and> \<not> utf8_valid (map of_char (stdout process))))"
proof -
  have p: "pattern self1 = pattern self"
    using assms(1) by (rule make_tempfiles_pattern)
  have "fst (RunTool_enter run self w) =
          (if returncode process \<noteq> 0 then
             (case decode_utf8 (stderr process) of
                Inl e \<Rightarrow> Inl e
              | Inr err \<Rightarrow> Inl (Exception (hd cmdline @ '' invocation failed: '' @ err)))
           else
             (case decode_utf8 (stdout process) of
                Inl e \<Rightarrow> Inl e
              | Inr out \<Rightarrow> Inr (setitem tempfiles ''__stdout__'' (Str out))))"
    using assms by (simp add: RunTool_enter_def Popen_def p split: sum.splits)
  then show ?thesis
    by (auto simp: decode_utf8_def)
qed

text \<open>
  The invocation that \<^verbatim>\<open>strip\<close> makes, first with a tool that exits with status 1, then
  with a tool that exits with status 0 and prints \<^verbatim>\<open>ok\<close>.
\<close>

theorem RunTool_enter_outcome_witness:
  "fst (RunTool_enter (fake_tool [] [])
          (RunTool_init strip_pattern [(''library'', ''ELF''), (''output'', [])]) world0)
     = Inl (Exception ''or1k-linux-strip invocation failed: unexpected arguments'') \<and>
   fst (RunTool_enter
          (fake_tool [''or1k-linux-strip'', ''--strip-debug'', ''/tmp/tmp_'', ''-o'',
                      ''/tmp/tmp__________''] ''ok'')
          (RunTool_init strip_pattern [(''library'', ''ELF''), (''output'', [])]) world0)
     = Inr [(''library'', File ''/tmp/tmp_''), (''output'', File ''/tmp/tmp__________''),
            (''__stdout__'', Str ''ok'')]"
proof -
  let ?self = "RunTool_init strip_pattern [(''library'', ''ELF''), (''output'', [])]"
  let ?cmdline = "[''or1k-linux-strip'', ''--strip-debug'', ''/tmp/tmp_'', ''-o'',
                   ''/tmp/tmp__________'']"
  let ?w1 = "world0\<lparr>disk := [(''/tmp/tmp__________'', []), (''/tmp/tmp_'', ''ELF'')]\<rparr>"
  have mt: "make_tempfiles (tempdata ?self) [] [] ?self world0 =
              ([(''library'', File ''/tmp/tmp_''), (''output'', File ''/tmp/tmp__________'')],
               [(''library'', ''/tmp/tmp_''), (''output'', ''/tmp/tmp__________'')],
               ?self\<lparr>files := [''/tmp/tmp_'', ''/tmp/tmp__________'']\<rparr>, ?w1)"
    by code_simp
  have fmt: "format_all (pattern ?self)
               (map_of [(''library'', ''/tmp/tmp_''), (''output'', ''/tmp/tmp__________'')])
             = Inr ?cmdline"
    by code_simp
  have ne: "?cmdline \<noteq> []"
    by simp
  have run1: "fake_tool [] [] ?cmdline (disk ?w1)
                = Inr \<lparr>returncode = 1, stdout = [], stderr = ''unexpected arguments'', written = []\<rparr>"
    by (simp add: fake_tool_def)
  have run0: "fake_tool ?cmdline ''ok'' ?cmdline (disk ?w1)
                = Inr \<lparr>returncode = 0, stdout = ''ok'', stderr = [], written = []\<rparr>"
    by (simp add: fake_tool_def)
  have v: "utf8_valid (map of_char ''unexpected arguments'')" "utf8_valid (map of_char ''ok'')"
    by code_simp+
  from RunTool_enter_outcome [where run = "fake_tool [] []", OF mt fmt ne run1]
       RunTool_enter_outcome [where run = "fake_tool ?cmdline ''ok''", OF mt fmt ne run0] v
  show ?thesis
    by simp
qed

subsection \<open>\<^verbatim>\<open>_dump\<close> and \<^verbatim>\<open>compile\<close>\<close>

lemma dump_absent: "dump None kind suffix content w = (Inr (), w)"
  by (simp add: dump_def)

lemma dump_temp:
  assumes "content (print_stderr (''====== '' @ upper kind @ '' DUMP ======'') w) = (Inr v, w2)"
  shows "dump (Some []) kind suffix content w =
           (Inr (),
            w2\<lparr>disk := (fresh_temp_name suffix (map fst (disk w2)),
                          (case v of Text s \<Rightarrow> s | Data b \<Rightarrow> b)) # disk w2,
                diag := diag w2 @ [kind @ '' dumped as '' @ fresh_temp_name suffix (map fst (disk w2))]\<rparr>)"
proof -
  have "fresh_temp_name suffix (map fst (disk w2)) \<notin> fst ` set (disk w2)"
    using fresh_temp_name_fresh [of suffix "map fst (disk w2)"] by simp
  from map_absent [OF this] show ?thesis
    using assms
    by (simp add: dump_def NamedTemporaryFile_def write_file_def print_stderr_def Let_def)
qed

lemma dump_path:
  assumes "t \<noteq> []"
    and "content (print_stderr (''====== '' @ upper kind @ '' DUMP ======'') w) = (Inr v, w2)"
  shows "dump (Some t) kind suffix content w =
           (Inr (),
            w2\<lparr>disk := (t @ suffix, (case v of Text s \<Rightarrow> s | Data b \<Rightarrow> b)) #
                          filter (\<lambda>(q, c). q \<noteq> t @ suffix) (disk w2),
                diag := diag w2 @ [kind @ '' dumped as '' @ t @ suffix]\<rparr>)"
proof -
  have "t @ suffix \<notin> fst ` set (filter (\<lambda>(q, c). q \<noteq> t @ suffix) (disk w2))"
    by auto
  from map_absent [OF this] show ?thesis
    using assms
    by (simp add: dump_def open_wb_def write_file_def print_stderr_def Let_def)
qed

lemma dump_raises:
  assumes "content (print_stderr (''====== '' @ upper kind @ '' DUMP ======'') w) = (Inl e, w2)"
  shows "dump (Some t) kind suffix content w = (Inl e, w2)"
  using assms by (simp add: dump_def)

lemma dump_pure_ok: "fst (dump target kind suffix (pure v) w) = Inr ()"
  by (cases target) (simp_all add: dump_def pure_def Let_def split: prod.splits)

lemma upper_broken: "upper ''LLVM IR (broken)'' = ''LLVM IR (BROKEN)''"
  by code_simp

lemma parse_and_verify_fails:
  assumes "parse_assembly ll llmod = Inl (RuntimeError msg) \<or>
           (\<exists>m. parse_assembly ll llmod = Inr m \<and> verify ll m = Inl (RuntimeError msg))"
  shows "parse_and_verify ll llmod w =
           (Inl (RuntimeError msg),
            w\<lparr>disk := (fresh_temp_name ''.ll'' (map fst (disk w)), llmod) # disk w,
               diag := diag w @ [''====== LLVM IR (BROKEN) DUMP ======'',
                                 ''LLVM IR (broken) dumped as '' @
                                 fresh_temp_name ''.ll'' (map fst (disk w))]\<rparr>)"
proof -
  have r: "(case parse_assembly ll llmod of
              Inl e \<Rightarrow> Inl e
            | Inr llparsedmod \<Rightarrow>
                (case verify ll llparsedmod of Inl e \<Rightarrow> Inl e | Inr u \<Rightarrow> Inr llparsedmod))
           = Inl (RuntimeError msg)"
    using assms by auto
  have d: "dump (Some []) ''LLVM IR (broken)'' ''.ll'' (pure (Text llmod)) w =
             (Inr (),
              w\<lparr>disk := (fresh_temp_name ''.ll'' (map fst (disk w)), llmod) # disk w,
                 diag := diag w @ [''====== LLVM IR (BROKEN) DUMP ======'',
                                   ''LLVM IR (broken) dumped as '' @
                                   fresh_temp_name ''.ll'' (map fst (disk w))]\<rparr>)"
    using dump_temp [of "pure (Text llmod)" "''LLVM IR (broken)''" w "Text llmod"
                        "print_stderr (''====== '' @ upper ''LLVM IR (broken)'' @ '' DUMP ======'') w"
                        "''.ll''"]
    by (simp add: pure_def print_stderr_def upper_broken)
  show ?thesis
    unfolding parse_and_verify_def r Let_def d by simp
qed

text \<open>
  Claim C3. Let \<^verbatim>\<open>module.build_llvm_ir\<close> return, and let parsing its text or verifying
  the parsed module raise \<^verbatim>\<open>RuntimeError\<close> (the specification's
  \<^verbatim>\<open>BackendVerificationError\<close>). Then \<^verbatim>\<open>compile\<close> returns no value: it ends with that
  exception, after writing the text of the broken module to a new temporary file with suffix
  \<^verbatim>\<open>.ll\<close> and reporting the file on the diagnostic stream. This holds for every
  environment \<open>getenv\<close>: the dump does not depend on any switch. \<open>w1\<close> is the
  environment in which verification starts, after the optional dumps of the signature and
  of the ARTIQ IR.
\<close>

theorem compile_verification_failure:
  assumes "build_llvm_ir module self = Inr llmod"
    and "parse_assembly ll llmod = Inl (RuntimeError msg) \<or>
         (\<exists>m. parse_assembly ll llmod = Inr m \<and> verify ll m = Inl (RuntimeError msg))"
  shows "let w1 = snd (dump (getenv ''ARTIQ_DUMP_IR'') ''ARTIQ IR'' ''.txt''
                         (pure (Text (join [nl] (artiq_ir module))))
                         (dump_sig (getenv ''ARTIQ_DUMP_SIG'') module w));
             file = fresh_temp_name ''.ll'' (map fst (disk w1))
         in compile ll getenv self module w =
              (Inl (RuntimeError msg),
               w1\<lparr>disk := (file, llmod) # disk w1,
                   diag := diag w1 @ [''====== LLVM IR (BROKEN) DUMP ======'',
                                      ''LLVM IR (broken) dumped as '' @ file]\<rparr>) \<and>
            file \<notin> fst ` set (disk w1)"
proof -
  define w1 where "w1 = snd (dump (getenv ''ARTIQ_DUMP_IR'') ''ARTIQ IR'' ''.txt''
                         (pure (Text (join [nl] (artiq_ir module))))
                         (dump_sig (getenv ''ARTIQ_DUMP_SIG'') module w))"
  have "fst (dump (getenv ''ARTIQ_DUMP_IR'') ''ARTIQ IR'' ''.txt''
               (pure (Text (join [nl] (artiq_ir module))))
               (dump_sig (getenv ''ARTIQ_DUMP_SIG'') module w)) = Inr ()"
    by (rule dump_pure_ok)
  then have d: "dump (getenv ''ARTIQ_DUMP_IR'') ''ARTIQ IR'' ''.txt''
                  (pure (Text (join [nl] (artiq_ir module))))
                  (dump_sig (getenv ''ARTIQ_DUMP_SIG'') module w) = (Inr (), w1)"
    unfolding w1_def by (simp add: prod_eq_iff)
  have fresh: "fresh_temp_name ''.ll'' (map fst (disk w1)) \<notin> fst ` set (disk w1)"
    using fresh_temp_name_fresh [of "''.ll''" "map fst (disk w1)"] by simp
  have "compile ll getenv self module w =
          (Inl (RuntimeError msg),
           w1\<lparr>disk := (fresh_temp_name ''.ll'' (map fst (disk w1)), llmod) # disk w1,
               diag := diag w1 @ [''====== LLVM IR (BROKEN) DUMP ======'',
                                  ''LLVM IR (broken) dumped as '' @
                                  fresh_temp_name ''.ll'' (map fst (disk w1))]\<rparr>)"
    unfolding compile_def Let_def d
    by (simp add: assms(1) parse_and_verify_fails [OF assms(2)])
  with fresh show ?thesis
    unfolding w1_def Let_def by simp
qed

text \<open>A module whose LLVM IR parses and does not verify, with no switch set.\<close>

theorem compile_verification_failure_witness:
  "compile llvm_example env_none OR1KTarget module_broken world0
     = (Inl (RuntimeError ''verification failed''),
        world0\<lparr>disk := [(''/tmp/tmp_.ll'', ''define void @f() { }'')],
               diag := [''====== LLVM IR (BROKEN) DUMP ======'',
                        ''LLVM IR (broken) dumped as /tmp/tmp_.ll'']\<rparr>)"
proof -
  have b: "build_llvm_ir module_broken OR1KTarget = Inr ''define void @f() { }''"
    by (simp add: module_broken_def)
  have v: "parse_assembly llvm_example ''define void @f() { }''
             = Inl (RuntimeError ''verification failed'') \<or>
           (\<exists>m. parse_assembly llvm_example ''define void @f() { }'' = Inr m \<and>
                verify llvm_example m = Inl (RuntimeError ''verification failed''))"
    by (simp add: llvm_example_def)
  have w1: "snd (dump (env_none ''ARTIQ_DUMP_IR'') ''ARTIQ IR'' ''.txt''
                   (pure (Text (join [nl] (artiq_ir module_broken))))
                   (dump_sig (env_none ''ARTIQ_DUMP_SIG'') module_broken world0)) = world0"
    by (simp add: env_none_def dump_def dump_sig_def)
  have f: "fresh_temp_name ''.ll'' (map fst (disk world0)) = ''/tmp/tmp_.ll''"
    by code_simp
  from compile_verification_failure [OF b v, of env_none world0] show ?thesis
    unfolding Let_def w1 f by (simp add: world0_def)
qed



subsection \<open>The dump switches\<close>

lemma dump_sig_spec: "dump_sig v module w = spec_sig_switch v (signature module) w"
  by (simp add: dump_sig_def spec_sig_switch_def print_stderr_def split: option.splits)

lemma dump_pure:
  "dump v kind suffix (pure c) w =
     (Inr (), spec_switch v kind suffix (case c of Text s \<Rightarrow> s | Data b \<Rightarrow> b) w)"
proof (cases v)
  case None
  then show ?thesis
    by (simp add: dump_absent spec_switch_def)
next
  case (Some t)
  define w2 where "w2 = print_stderr (''====== '' @ upper kind @ '' DUMP ======'') w"
  have c: "pure c (print_stderr (''====== '' @ upper kind @ '' DUMP ======'') w) = (Inr c, w2)"
    by (simp add: pure_def w2_def)
  have d: "disk w2 = disk w" and g: "diag w2 = diag w @ [''====== '' @ upper kind @ '' DUMP ======'']"
    by (simp_all add: w2_def print_stderr_def)
  show ?thesis
  proof (cases "t = []")
    case True
    have "fresh_temp_name suffix (map fst (disk w)) \<notin> fst ` set (disk w)"
      using fresh_temp_name_fresh [of suffix "map fst (disk w)"] by simp
    from filter_absent [OF this] show ?thesis
      using dump_temp [where content = "pure c" and kind = kind and w = w and v = c
                         and ?w2.0 = w2 and suffix = suffix] c Some True
      by (simp add: spec_switch_def Let_def d g w2_def print_stderr_def)
  next
    case False
    then show ?thesis
      using dump_path [where content = "pure c" and kind = kind and w = w and v = c
                         and ?w2.0 = w2 and suffix = suffix and t = t] c Some
      by (simp add: spec_switch_def Let_def d g w2_def print_stderr_def)
  qed
qed

lemma parse_and_verify_ok:
  assumes "parse_assembly ll llmod = Inr m" and "verify ll m = Inr ()"
  shows "parse_and_verify ll llmod w = (Inr m, w)"
  using assms by (simp add: parse_and_verify_def)

lemma compile_ok:
  assumes "build_llvm_ir module self = Inr llmod"
    and "parse_assembly ll llmod = Inr m" and "verify ll m = Inr ()"
    and "optimize ll self m = Inr llopt"
  shows "compile ll getenv self module w =
           (Inr llopt,
            spec_switch (getenv ''ARTIQ_DUMP_LLVM'') ''LLVM IR (optimized)'' ''.ll''
              (module_str ll llopt)
              (spec_switch (getenv ''ARTIQ_DUMP_UNOPT_LLVM'') ''LLVM IR (generated)'' ''_unopt.ll''
                 (module_str ll m)
                 (spec_switch (getenv ''ARTIQ_DUMP_IR'') ''ARTIQ IR'' ''.txt''
                    (join [nl] (artiq_ir module))
                    (spec_sig_switch (getenv ''ARTIQ_DUMP_SIG'') (signature module) w))))"
  using assms
  by (simp add: compile_def Let_def dump_pure dump_sig_spec parse_and_verify_ok)

lemma assemble_ok:
  assumes "target_machine ll self = Inr llmachine"
  shows "assemble ll getenv self llmodule w =
           (Inr (emit_object ll llmachine llmodule),
            spec_switch (getenv ''ARTIQ_DUMP_ASM'') ''Assembly'' ''.s''
              (emit_assembly ll llmachine llmodule) w)"
  using assms by (simp add: assemble_def dump_pure)

lemma map_of_setitem: "map_of (setitem d k v) = (map_of d)(k \<mapsto> v)"
  by (induction d) (auto simp: fun_eq_iff)

lemma make_tempfiles_keeps:
  "make_tempfiles td tf tn self w = (tf1, tn1, self1, w1) \<Longrightarrow> k \<notin> fst ` set td \<Longrightarrow>
   map_of tf1 k = map_of tf k"
proof (induction td arbitrary: tf tn self w)
  case Nil
  then show ?case by simp
next
  case (Cons kd td)
  obtain key data where kd: "kd = (key, data)"
    by (cases kd)
  obtain f self' w' where mt: "maketemp data self w = (f, self', w')"
    by (cases "maketemp data self w")
  from Cons.prems have
    rest: "make_tempfiles td (setitem tf key (File f)) (setitem tn key f) self' w' = (tf1, tn1, self1, w1)"
    and k: "k \<noteq> key" "k \<notin> fst ` set td"
    by (auto simp: kd mt)
  from Cons.IH [OF rest k(2)] k(1) show ?case
    by (simp add: map_of_setitem)
qed

lemma link_output:
  assumes "RunTool_enter run (link_invocation self objects) w = (Inr results, self1, w1)"
  shows "getitem results ''output'' = Inr (File (first_temp w))"
proof -
  define rest where
    "rest = map (\<lambda>(index, obj). (''obj'' @ dec_digits index, obj)) (enumerate 0 objects)"
  define self0 where "self0 = link_invocation self objects"
  have td: "tempdata self0 = (''output'', []) # rest"
    by (simp add: self0_def link_invocation_def RunTool_init_def rest_def)
  obtain f s1 w' where m1: "maketemp [] self0 w = (f, s1, w')"
    by (cases "maketemp [] self0 w")
  then have f: "f = first_temp w"
    by (auto simp: maketemp_def NamedTemporaryFile_def first_temp_def Let_def)
  obtain tf tn s2 w2 where
    mt: "make_tempfiles rest [(''output'', File f)] [(''output'', f)] s1 w' = (tf, tn, s2, w2)"
    by (cases "make_tempfiles rest [(''output'', File f)] [(''output'', f)] s1 w'")
  have "''output'' \<notin> fst ` set rest"
    by (auto simp: rest_def)
  from make_tempfiles_keeps [OF mt this] have tf: "map_of tf ''output'' = Some (File f)"
    by simp
  have all: "make_tempfiles (tempdata self0) [] [] self0 w = (tf, tn, s2, w2)"
    by (simp add: td m1 mt)
  from assms obtain out where "results = setitem tf ''__stdout__'' (Str out)"
    unfolding self0_def [symmetric]
    by (auto simp: RunTool_enter_def all Let_def split: sum.splits prod.splits if_splits)
  then show ?thesis
    using tf by (simp add: getitem_def map_of_setitem f)
qed

lemma link_ok:
  assumes "RunTool_enter run (link_invocation self objects) w = (Inr results, self1, w1)"
  shows "link run getenv self objects w =
           (Inr (read_file (first_temp w) w1),
            RunTool_exit self1
              (spec_switch (getenv ''ARTIQ_DUMP_ELF'') ''Shared library'' ''.elf''
                 (read_file (first_temp w) w1) w1))"
proof -
  have "link run getenv self objects w =
          with_RunTool run (link_invocation self objects)
            (\<lambda>results w1.
               (case getitem results ''output'' of
                  Inl e \<Rightarrow> (Inl e, w1)
                | Inr (Str s) \<Rightarrow> (Inl AttributeError, w1)
                | Inr (File f) \<Rightarrow>
                    (let library = read_file f w1
                     in case dump (getenv ''ARTIQ_DUMP_ELF'') ''Shared library'' ''.elf''
                               (pure (Data library)) w1 of
                          (Inl e, w2) \<Rightarrow> (Inl e, w2)
                        | (Inr u, w2) \<Rightarrow> (Inr library, w2))))
            w"
    by (simp add: link_def link_invocation_def)
  also have "\<dots> = (Inr (read_file (first_temp w) w1),
            RunTool_exit self1
              (spec_switch (getenv ''ARTIQ_DUMP_ELF'') ''Shared library'' ''.elf''
                 (read_file (first_temp w) w1) w1))"
    unfolding with_RunTool_def assms
    by (simp add: link_output [OF assms] Let_def dump_pure)
  finally show ?thesis .
qed

text \<open>
  Claim C9 gives the same three behaviours to every dump switch, \<^verbatim>\<open>ARTIQ_DUMP_SIG\<close>
  included. \<^verbatim>\<open>compile\<close> does not pass that switch to \<^verbatim>\<open>_dump\<close>: it tests the value
  for truth and prints the module to the diagnostic stream. With the empty string as
  value, nothing is dumped and no temporary file is made; with the value \<^verbatim>\<open>/tmp/sig\<close>
  the signature is printed and no file is written.
\<close>

theorem dump_sig_switch_differs:
  "compile llvm_example env_sig_empty OR1KTarget module_ok world0
     = (Inr ''define void @f() { ret void }'', world0) \<and>
   compile llvm_example env_sig_path OR1KTarget module_ok world0
     = (Inr ''define void @f() { ret void }'',
        world0\<lparr>diag := [''====== MODULE_SIGNATURE DUMP ======'', ''f: () -> None'']\<rparr>)"
  by code_simp

text \<open>
  Claim C9, amended. For every switch whose value is passed to \<^verbatim>\<open>_dump\<close>, which are
  \<^verbatim>\<open>ARTIQ_DUMP_IR\<close> (suffix \<^verbatim>\<open>.txt\<close>), \<^verbatim>\<open>ARTIQ_DUMP_UNOPT_LLVM\<close>
  (\<^verbatim>\<open>_unopt.ll\<close>) and \<^verbatim>\<open>ARTIQ_DUMP_LLVM\<close> (\<^verbatim>\<open>.ll\<close>) in \<^verbatim>\<open>compile\<close>,
  \<^verbatim>\<open>ARTIQ_DUMP_ASM\<close> (\<^verbatim>\<open>.s\<close>) in \<^verbatim>\<open>assemble\<close> and \<^verbatim>\<open>ARTIQ_DUMP_ELF\<close>
  (\<^verbatim>\<open>.elf\<close>) in \<^verbatim>\<open>link\<close>: when the value is absent nothing is dumped and the
  content producer is not evaluated (the result does not depend on it, and the environment
  is unchanged even for a producer with effects); when the value is the empty string the
  content is written to a new temporary file whose name ends with the suffix of the stage;
  when the value is not empty the content is written to the file named by the value
  followed by the suffix. For \<^verbatim>\<open>ARTIQ_DUMP_SIG\<close>: when the value is absent or empty
  nothing happens; when it is not empty the signature is printed to the diagnostic stream
  and no file is written.

  The first six parts of the theorem state this of \<^verbatim>\<open>_dump\<close>, for any producer, and of
  the test that \<^verbatim>\<open>compile\<close> makes of \<^verbatim>\<open>ARTIQ_DUMP_SIG\<close>. The last three state it
  of the methods. When \<^verbatim>\<open>compile\<close> succeeds, the environment it leaves is the one it
  was called in, changed by the four switches as the specification describes them
  (\<open>spec_sig_switch\<close>, \<open>spec_switch\<close>), in the order of the stages and with the contents
  of the stages: the signature, the ARTIQ IR of the module, the text of the LLVM module
  before optimisation and its text after. For \<^verbatim>\<open>assemble\<close> it is changed by
  \<^verbatim>\<open>ARTIQ_DUMP_ASM\<close> with the assembly. For \<^verbatim>\<open>link\<close>, when the linker has run and
  left the environment \<open>w1\<close>, the result is the content of the output file, and the
  environment is \<open>w1\<close> changed by \<^verbatim>\<open>ARTIQ_DUMP_ELF\<close> with that content, after which
  the temporary files are closed.
\<close>

theorem dump_switch:
  "dump None kind suffix content w = (Inr (), w) \<and>
   (content (print_stderr (''====== '' @ upper kind @ '' DUMP ======'') w) = (Inr v, w2) \<longrightarrow>
      dump (Some []) kind suffix content w =
        (Inr (),
         w2\<lparr>disk := (fresh_temp_name suffix (map fst (disk w2)),
                       (case v of Text s \<Rightarrow> s | Data b \<Rightarrow> b)) # disk w2,
             diag := diag w2 @ [kind @ '' dumped as '' @ fresh_temp_name suffix (map fst (disk w2))]\<rparr>) \<and>
      fresh_temp_name suffix (map fst (disk w2)) \<notin> fst ` set (disk w2)) \<and>
   (t \<noteq> [] \<and>
    content (print_stderr (''====== '' @ upper kind @ '' DUMP ======'') w) = (Inr v, w2) \<longrightarrow>
      dump (Some t) kind suffix content w =
        (Inr (),
         w2\<lparr>disk := (t @ suffix, (case v of Text s \<Rightarrow> s | Data b \<Rightarrow> b)) #
                       filter (\<lambda>(q, c). q \<noteq> t @ suffix) (disk w2),
             diag := diag w2 @ [kind @ '' dumped as '' @ t @ suffix]\<rparr>)) \<and>
   dump_sig None module w = w \<and>
   dump_sig (Some []) module w = w \<and>
   (t \<noteq> [] \<longrightarrow>
      dump_sig (Some t) module w =
        w\<lparr>diag := diag w @ [''====== MODULE_SIGNATURE DUMP ======'', signature module]\<rparr>) \<and>
   (build_llvm_ir module self = Inr llmod \<and> parse_assembly ll llmod = Inr m \<and>
    verify ll m = Inr () \<and> optimize ll self m = Inr llopt \<longrightarrow>
      compile ll getenv self module w =
        (Inr llopt,
         spec_switch (getenv ''ARTIQ_DUMP_LLVM'') ''LLVM IR (optimized)'' ''.ll''
           (module_str ll llopt)
           (spec_switch (getenv ''ARTIQ_DUMP_UNOPT_LLVM'') ''LLVM IR (generated)'' ''_unopt.ll''
              (module_str ll m)
              (spec_switch (getenv ''ARTIQ_DUMP_IR'') ''ARTIQ IR'' ''.txt''
                 (join [nl] (artiq_ir module))
                 (spec_sig_switch (getenv ''ARTIQ_DUMP_SIG'') (signature module) w))))) \<and>
   (target_machine ll self = Inr llmachine \<longrightarrow>
      assemble ll getenv self m w =
        (Inr (emit_object ll llmachine m),
         spec_switch (getenv ''ARTIQ_DUMP_ASM'') ''Assembly'' ''.s''
           (emit_assembly ll llmachine m) w)) \<and>
   (RunTool_enter run (link_invocation self objects) w = (Inr results, self1, w1) \<longrightarrow>
      link run getenv self objects w =
        (Inr (read_file (first_temp w) w1),
         RunTool_exit self1
           (spec_switch (getenv ''ARTIQ_DUMP_ELF'') ''Shared library'' ''.elf''
              (read_file (first_temp w) w1) w1)))"
proof -
  have fresh: "fresh_temp_name suffix (map fst (disk w2)) \<notin> fst ` set (disk w2)"
    using fresh_temp_name_fresh [of suffix "map fst (disk w2)"] by simp
  have helper:
    "dump None kind suffix content w = (Inr (), w) \<and>
     (content (print_stderr (''====== '' @ upper kind @ '' DUMP ======'') w) = (Inr v, w2) \<longrightarrow>
        dump (Some []) kind suffix content w =
          (Inr (),
           w2\<lparr>disk := (fresh_temp_name suffix (map fst (disk w2)),
                         (case v of Text s \<Rightarrow> s | Data b \<Rightarrow> b)) # disk w2,
               diag := diag w2 @ [kind @ '' dumped as '' @ fresh_temp_name suffix (map fst (disk w2))]\<rparr>) \<and>
        fresh_temp_name suffix (map fst (disk w2)) \<notin> fst ` set (disk w2)) \<and>
     (t \<noteq> [] \<and>
      content (print_stderr (''====== '' @ upper kind @ '' DUMP ======'') w) = (Inr v, w2) \<longrightarrow>
        dump (Some t) kind suffix content w =
          (Inr (),
           w2\<lparr>disk := (t @ suffix, (case v of Text s \<Rightarrow> s | Data b \<Rightarrow> b)) #
                         filter (\<lambda>(q, c). q \<noteq> t @ suffix) (disk w2),
               diag := diag w2 @ [kind @ '' dumped as '' @ t @ suffix]\<rparr>)) \<and>
     dump_sig None module w = w \<and>
     dump_sig (Some []) module w = w \<and>
     (t \<noteq> [] \<longrightarrow>
        dump_sig (Some t) module w =
          w\<lparr>diag := diag w @ [''====== MODULE_SIGNATURE DUMP ======'', signature module]\<rparr>)"
    using fresh dump_temp [of content kind w v w2 suffix] dump_path [of t content kind w v w2 suffix]
    by (simp add: dump_absent dump_sig_def print_stderr_def)
  have c: "build_llvm_ir module self = Inr llmod \<and> parse_assembly ll llmod = Inr m \<and>
           verify ll m = Inr () \<and> optimize ll self m = Inr llopt \<longrightarrow>
      compile ll getenv self module w =
        (Inr llopt,
         spec_switch (getenv ''ARTIQ_DUMP_LLVM'') ''LLVM IR (optimized)'' ''.ll''
           (module_str ll llopt)
           (spec_switch (getenv ''ARTIQ_DUMP_UNOPT_LLVM'') ''LLVM IR (generated)'' ''_unopt.ll''
              (module_str ll m)
              (spec_switch (getenv ''ARTIQ_DUMP_IR'') ''ARTIQ IR'' ''.txt''
                 (join [nl] (artiq_ir module))
                 (spec_sig_switch (getenv ''ARTIQ_DUMP_SIG'') (signature module) w))))"
    using compile_ok [of module self llmod ll m llopt getenv w] by blast
  have a: "target_machine ll self = Inr llmachine \<longrightarrow>
      assemble ll getenv self m w =
        (Inr (emit_object ll llmachine m),
         spec_switch (getenv ''ARTIQ_DUMP_ASM'') ''Assembly'' ''.s''
           (emit_assembly ll llmachine m) w)"
    using assemble_ok [of ll self llmachine getenv m w] by blast
  have l: "RunTool_enter run (link_invocation self objects) w = (Inr results, self1, w1) \<longrightarrow>
      link run getenv self objects w =
        (Inr (read_file (first_temp w) w1),
         RunTool_exit self1
           (spec_switch (getenv ''ARTIQ_DUMP_ELF'') ''Shared library'' ''.elf''
              (read_file (first_temp w) w1) w1))"
    using link_ok [of run self objects w results self1 w1 getenv] by blast
  from helper c a l show ?thesis
    by (intro conjI) (erule conjE conjunct1 | assumption)+
qed

text \<open>
  \<^verbatim>\<open>_dump\<close> with the values \<^verbatim>\<open>""\<close> and \<^verbatim>\<open>/tmp/x\<close>, the test of
  \<^verbatim>\<open>ARTIQ_DUMP_SIG\<close> with the value \<^verbatim>\<open>/tmp/x\<close>, and the three methods in an
  environment where \<^verbatim>\<open>ARTIQ_DUMP_IR\<close> and \<^verbatim>\<open>ARTIQ_DUMP_ELF\<close> are empty,
  \<^verbatim>\<open>ARTIQ_DUMP_LLVM\<close> and \<^verbatim>\<open>ARTIQ_DUMP_ASM\<close> are \<^verbatim>\<open>/tmp/x\<close> and
  \<^verbatim>\<open>ARTIQ_DUMP_UNOPT_LLVM\<close> is absent. The linker is given one object and writes the
  library \<^verbatim>\<open>ELF\<close>.
\<close>

theorem dump_switch_witness:
  "dump (Some []) ''ARTIQ IR'' ''.txt'' (pure (Text ''f'')) world0 =
     (Inr (),
      world0\<lparr>disk := [(''/tmp/tmp_.txt'', ''f'')],
             diag := [''====== ARTIQ IR DUMP ======'', ''ARTIQ IR dumped as /tmp/tmp_.txt'']\<rparr>) \<and>
   dump (Some ''/tmp/x'') ''ARTIQ IR'' ''.txt'' (pure (Text ''f'')) world0 =
     (Inr (),
      world0\<lparr>disk := [(''/tmp/x.txt'', ''f'')],
             diag := [''====== ARTIQ IR DUMP ======'', ''ARTIQ IR dumped as /tmp/x.txt'']\<rparr>) \<and>
   dump_sig (Some ''/tmp/x'') module_ok world0 =
     world0\<lparr>diag := [''====== MODULE_SIGNATURE DUMP ======'', ''f: () -> None'']\<rparr> \<and>
   compile llvm_example env_dumps OR1KTarget module_ok world0 =
     (Inr ''define void @f() { ret void }'',
      world0\<lparr>disk := [(''/tmp/x.ll'', ''define void @f() { ret void }''),
                       (''/tmp/tmp_.txt'', ''f'')],
             diag := [''====== ARTIQ IR DUMP ======'', ''ARTIQ IR dumped as /tmp/tmp_.txt'',
                      ''====== LLVM IR (OPTIMIZED) DUMP ======'',
                      ''LLVM IR (optimized) dumped as /tmp/x.ll'']\<rparr>) \<and>
   assemble llvm_example env_dumps OR1KTarget ''define void @f() { ret void }'' world0 =
     (Inr ''define void @f() { ret void }'',
      world0\<lparr>disk := [(''/tmp/x.s'', ''define void @f() { ret void }'')],
             diag := [''====== ASSEMBLY DUMP ======'', ''Assembly dumped as /tmp/x.s'']\<rparr>) \<and>
   link (fake_ld ''ELF'') env_dumps OR1KTarget [''OBJ''] world0 =
     (Inr ''ELF'',
      world0\<lparr>disk := [(''/tmp/tmp___________________.elf'', ''ELF'')],
             diag := [''====== SHARED LIBRARY DUMP ======'',
                      ''Shared library dumped as /tmp/tmp___________________.elf''],
             started := [[''or1k-linux-ld'', ''-shared'', ''--eh-frame-hdr'',
                          ''/tmp/tmp__________'', ''-o'', ''/tmp/tmp_'']]\<rparr>)"
proof -
  let ?ir = "''define void @f() { ret void }''"
  let ?results = "[(''output'', File ''/tmp/tmp_''), (''obj0'', File ''/tmp/tmp__________''),
                   (''__stdout__'', Str [])]"
  let ?self1 = "\<lparr>files = [''/tmp/tmp_'', ''/tmp/tmp__________''],
                 pattern = [''or1k-linux-ld'', ''-shared'', ''--eh-frame-hdr'', ''{obj0}'',
                            ''-o'', ''{output}''],
                 tempdata = [(''output'', []), (''obj0'', ''OBJ'')]\<rparr>"
  let ?w1 = "\<lparr>disk = [(''/tmp/tmp_'', ''ELF''), (''/tmp/tmp__________'', ''OBJ'')], diag = [],
              started = [[''or1k-linux-ld'', ''-shared'', ''--eh-frame-hdr'',
                          ''/tmp/tmp__________'', ''-o'', ''/tmp/tmp_'']]\<rparr>"
  have u: "upper ''ARTIQ IR'' = ''ARTIQ IR''"
    by code_simp
  have c: "pure (Text ''f'') (print_stderr (''====== '' @ upper ''ARTIQ IR'' @ '' DUMP ======'') world0)
             = (Inr (Text ''f''), world0\<lparr>diag := [''====== ARTIQ IR DUMP ======'']\<rparr>)"
    by (simp add: pure_def print_stderr_def u world0_def)
  have f: "fresh_temp_name ''.txt'' [] = ''/tmp/tmp_.txt''"
    by code_simp
  have t: "''/tmp/x'' \<noteq> []"
    by simp
  have b: "build_llvm_ir module_ok OR1KTarget = Inr ?ir"
    by (simp add: module_ok_def)
  have p: "parse_assembly llvm_example ?ir = Inr ?ir"
    by (simp add: llvm_example_def)
  have vf: "verify llvm_example ?ir = Inr ()"
    by (simp add: llvm_example_def)
  have tm: "target_machine llvm_example OR1KTarget = Inr ()"
    by (simp add: target_machine_def llvm_example_def)
  have opt: "optimize llvm_example OR1KTarget ?ir = Inr ?ir"
    by (simp add: optimize_def tm) (simp add: llvm_example_def)
  have enter: "RunTool_enter (fake_ld ''ELF'') (link_invocation OR1KTarget [''OBJ'']) world0
                 = (Inr ?results, ?self1, ?w1)"
    by code_simp
  have sc: "spec_switch (env_dumps ''ARTIQ_DUMP_LLVM'') ''LLVM IR (optimized)'' ''.ll''
              (module_str llvm_example ?ir)
              (spec_switch (env_dumps ''ARTIQ_DUMP_UNOPT_LLVM'') ''LLVM IR (generated)'' ''_unopt.ll''
                 (module_str llvm_example ?ir)
                 (spec_switch (env_dumps ''ARTIQ_DUMP_IR'') ''ARTIQ IR'' ''.txt''
                    (join [nl] (artiq_ir module_ok))
                    (spec_sig_switch (env_dumps ''ARTIQ_DUMP_SIG'') (signature module_ok) world0)))
            = world0\<lparr>disk := [(''/tmp/x.ll'', ?ir), (''/tmp/tmp_.txt'', ''f'')],
                     diag := [''====== ARTIQ IR DUMP ======'', ''ARTIQ IR dumped as /tmp/tmp_.txt'',
                              ''====== LLVM IR (OPTIMIZED) DUMP ======'',
                              ''LLVM IR (optimized) dumped as /tmp/x.ll'']\<rparr>"
    by code_simp
  have sa: "spec_switch (env_dumps ''ARTIQ_DUMP_ASM'') ''Assembly'' ''.s''
              (emit_assembly llvm_example () ?ir) world0
            = world0\<lparr>disk := [(''/tmp/x.s'', ?ir)],
                     diag := [''====== ASSEMBLY DUMP ======'', ''Assembly dumped as /tmp/x.s'']\<rparr>"
    by code_simp
  have eo: "emit_object llvm_example () ?ir = ?ir"
    by (simp add: llvm_example_def)
  have rd: "read_file (first_temp world0) ?w1 = ''ELF''"
    by code_simp
  have sl: "RunTool_exit ?self1
              (spec_switch (env_dumps ''ARTIQ_DUMP_ELF'') ''Shared library'' ''.elf'' ''ELF'' ?w1)
            = world0\<lparr>disk := [(''/tmp/tmp___________________.elf'', ''ELF'')],
                     diag := [''====== SHARED LIBRARY DUMP ======'',
                              ''Shared library dumped as /tmp/tmp___________________.elf''],
                     started := [[''or1k-linux-ld'', ''-shared'', ''--eh-frame-hdr'',
                                  ''/tmp/tmp__________'', ''-o'', ''/tmp/tmp_'']]\<rparr>"
    by code_simp
  from dump_switch [where kind = "''ARTIQ IR''" and suffix = "''.txt''"
                      and content = "pure (Text ''f'')" and w = world0 and v = "Text ''f''"
                      and ?w2.0 = "world0\<lparr>diag := [''====== ARTIQ IR DUMP ======'']\<rparr>"
                      and t = "''/tmp/x''" and module = module_ok and self = OR1KTarget
                      and llmod = ?ir and ll = llvm_example and m = ?ir and llopt = ?ir
                      and getenv = env_dumps and llmachine = "()" and run = "fake_ld ''ELF''"
                      and objects = "[''OBJ'']" and results = ?results and ?self1.0 = ?self1
                      and ?w1.0 = ?w1]
       c t b p vf opt tm enter
  show ?thesis
    unfolding sc sa eo rd sl
    by (simp add: f world0_def module_ok_def)
qed


end
